theory Spec2Isabelle
  imports Main
begin

section \<open>JavaScript values\<close>

text \<open>
  The adapter handles untyped JSON data throughout (tool arguments, request bodies,
  parsed responses), so values are modelled by one datatype. An object is the list of its
  own enumerable properties in the engine's property order, with distinct keys; numbers
  are restricted to integers (identifiers, page numbers, millisecond timestamps).
\<close>

datatype jsval =
    JUndefined
  | JNull
  | JBool bool
  | JNum int
  | JStr string
  | JArr "jsval list"
  | JObj "(string \<times> jsval) list"

datatype js_error = Error string | TypeError string | SyntaxError string

fun message :: "js_error \<Rightarrow> string" where
  "message (Error m) = m"
| "message (TypeError m) = m"
| "message (SyntaxError m) = m"

text \<open>ToBoolean, as used by \<^verbatim>\<open>if (x)\<close>, \<^verbatim>\<open>!x\<close> and \<^verbatim>\<open>a || b\<close>.\<close>

fun truthy :: "jsval \<Rightarrow> bool" where
  "truthy JUndefined = False"
| "truthy JNull = False"
| "truthy (JBool b) = b"
| "truthy (JNum n) = (n \<noteq> 0)"
| "truthy (JStr s) = (s \<noteq> [])"
| "truthy (JArr xs) = True"
| "truthy (JObj ps) = True"

text \<open>\<^verbatim>\<open>a ?? b\<close>\<close>

definition nullish_or :: "jsval \<Rightarrow> jsval \<Rightarrow> jsval" where
  "nullish_or a b = (if a = JUndefined \<or> a = JNull then b else a)"

text \<open>\<^verbatim>\<open>a || b\<close>\<close>

definition js_or :: "jsval \<Rightarrow> jsval \<Rightarrow> jsval" where
  "js_or a b = (if truthy a then a else b)"

subsection \<open>Number and string conversion\<close>

definition digit_char :: "nat \<Rightarrow> char" where
  "digit_char d = (''0123456789abcdef'' ! (d mod 16))"

function string_of_nat :: "nat \<Rightarrow> string" where
  "string_of_nat n =
     (if n < 10 then [digit_char n] else string_of_nat (n div 10) @ [digit_char (n mod 10)])"
  by pat_completeness auto
termination
  by (relation "measure id") auto

definition number_to_string :: "int \<Rightarrow> string" where
  "number_to_string i =
     (if i < 0 then ''-'' @ string_of_nat (nat (- i)) else string_of_nat (nat i))"

text \<open>
  \<^verbatim>\<open>String(v)\<close> and template-literal interpolation. An array is joined with commas,
  its \<^verbatim>\<open>undefined\<close> and \<^verbatim>\<open>null\<close> elements rendered empty.
\<close>

fun js_String :: "jsval \<Rightarrow> string"
  and join_elems :: "jsval list \<Rightarrow> string" where
  "js_String JUndefined = ''undefined''"
| "js_String JNull = ''null''"
| "js_String (JBool b) = (if b then ''true'' else ''false'')"
| "js_String (JNum n) = number_to_string n"
| "js_String (JStr s) = s"
| "js_String (JArr xs) = join_elems xs"
| "js_String (JObj ps) = ''[object Object]''"
| "join_elems [] = []"
| "join_elems (x # xs) =
     (if x = JUndefined \<or> x = JNull then [] else js_String x)
     @ (if xs = [] then [] else '','' @ join_elems xs)"

subsection \<open>JSON.stringify\<close>

definition newline :: string where
  "newline = [CHR 0x0A]"

definition escape_char :: "char \<Rightarrow> string" where
  "escape_char c =
     (if c = CHR 0x22 then [CHR 0x5C, CHR 0x22]
      else if c = CHR 0x5C then [CHR 0x5C, CHR 0x5C]
      else if c = CHR 0x08 then [CHR 0x5C, CHR ''b'']
      else if c = CHR 0x0C then [CHR 0x5C, CHR ''f'']
      else if c = CHR 0x0A then [CHR 0x5C, CHR ''n'']
      else if c = CHR 0x0D then [CHR 0x5C, CHR ''r'']
      else if c = CHR 0x09 then [CHR 0x5C, CHR ''t'']
      else if (of_char c :: nat) < 32 then
        [CHR 0x5C, CHR ''u'', CHR ''0'', CHR ''0'',
         digit_char ((of_char c :: nat) div 16), digit_char ((of_char c :: nat) mod 16)]
      else [c])"

definition quote_json :: "string \<Rightarrow> string" where
  "quote_json s = [CHR 0x22] @ concat (map escape_char s) @ [CHR 0x22]"

fun join_with :: "string \<Rightarrow> string list \<Rightarrow> string" where
  "join_with sep [] = []"
| "join_with sep [x] = x"
| "join_with sep (x # y # ys) = x @ sep @ join_with sep (y # ys)"

text \<open>
  The bracketed rendering of a non-empty list of members: compact when the gap is empty,
  otherwise one member per line at the deeper indentation.
\<close>

definition wrap_members :: "string \<Rightarrow> string \<Rightarrow> string \<Rightarrow> string \<Rightarrow> string list \<Rightarrow> string" where
  "wrap_members l r gap stepback members =
     (if gap = [] then l @ join_with '','' members @ r
      else l @ newline @ stepback @ gap
             @ join_with ('','' @ newline @ stepback @ gap) members
             @ newline @ stepback @ r)"

text \<open>
  \<^verbatim>\<open>JSON.stringify\<close> with gap \<open>gap\<close> at current indentation \<open>ind\<close>:
  \<^verbatim>\<open>undefined\<close> has no serialization (\<open>None\<close>); inside an array it is rendered
  \<^verbatim>\<open>null\<close>, inside an object the property is left out.
\<close>

fun stringify :: "string \<Rightarrow> string \<Rightarrow> jsval \<Rightarrow> string option"
  and stringify_elems :: "string \<Rightarrow> string \<Rightarrow> jsval list \<Rightarrow> string list"
  and stringify_props :: "string \<Rightarrow> string \<Rightarrow> (string \<times> jsval) list \<Rightarrow> string list" where
  "stringify gap ind JUndefined = None"
| "stringify gap ind JNull = Some ''null''"
| "stringify gap ind (JBool b) = Some (if b then ''true'' else ''false'')"
| "stringify gap ind (JNum n) = Some (number_to_string n)"
| "stringify gap ind (JStr s) = Some (quote_json s)"
| "stringify gap ind (JArr xs) =
     Some (if xs = [] then ''[]''
           else wrap_members ''['' '']'' gap ind (stringify_elems gap (ind @ gap) xs))"
| "stringify gap ind (JObj ps) =
     Some (let members = stringify_props gap (ind @ gap) ps in
           if members = [] then ''{}'' else wrap_members ''{'' ''}'' gap ind members)"
| "stringify_elems gap ind [] = []"
| "stringify_elems gap ind (x # xs) =
     (case stringify gap ind x of None \<Rightarrow> ''null'' | Some s \<Rightarrow> s) # stringify_elems gap ind xs"
| "stringify_props gap ind [] = []"
| "stringify_props gap ind ((k, v) # ps) =
     (case stringify gap ind v of
        None \<Rightarrow> stringify_props gap ind ps
      | Some s \<Rightarrow>
          (quote_json k @ '':'' @ (if gap = [] then [] else '' '') @ s)
          # stringify_props gap ind ps)"

text \<open>\<^verbatim>\<open>JSON.stringify(v)\<close> and \<^verbatim>\<open>JSON.stringify(v, null, 2)\<close>.\<close>

definition JSON_stringify :: "jsval \<Rightarrow> string option" where
  "JSON_stringify v = stringify [] [] v"

definition JSON_stringify2 :: "jsval \<Rightarrow> string option" where
  "JSON_stringify2 v = stringify ''  '' [] v"

text \<open>String concatenation with a possibly undefined operand.\<close>

definition str_or_undefined :: "string option \<Rightarrow> string" where
  "str_or_undefined s = (case s of None \<Rightarrow> ''undefined'' | Some t \<Rightarrow> t)"

subsection \<open>Objects\<close>

text \<open>\<^verbatim>\<open>o.k\<close> on the property list of an object: \<^verbatim>\<open>undefined\<close> when absent.\<close>

definition lookup_prop :: "(string \<times> jsval) list \<Rightarrow> string \<Rightarrow> jsval" where
  "lookup_prop ps k = (case map_of ps k of None \<Rightarrow> JUndefined | Some v \<Rightarrow> v)"

text \<open>
  \<^verbatim>\<open>o.k = v\<close>, and a later entry of an object literal: an existing key keeps its
  position, a new key goes last.
\<close>

fun set_prop :: "(string \<times> jsval) list \<Rightarrow> string \<Rightarrow> jsval \<Rightarrow> (string \<times> jsval) list" where
  "set_prop [] k v = [(k, v)]"
| "set_prop ((k', v') # ps) k v =
     (if k' = k then (k, v) # ps else (k', v') # set_prop ps k v)"

section \<open>HTTP client (src/api/client.ts)\<close>

text \<open>
  A request as \<^verbatim>\<open>fetch\<close> receives it. The URL is kept in two parts: the base URL followed
  by the path, as concatenated, and the search parameters as the list of name and value
  pairs that \<^verbatim>\<open>url.searchParams.append\<close> has built; URL normalization and
  percent-encoding are not modelled.
\<close>

record http_request =
  req_method :: string
  req_url :: string
  req_query :: "(string \<times> string) list"
  req_headers :: "(string \<times> string) list"
  req_body :: "string option"

text \<open>
  What one \<^verbatim>\<open>fetch\<close> followed by \<^verbatim>\<open>response.json()\<close> can do: \<^verbatim>\<open>fetch\<close> rejects
  (transport failure, a TypeError with its message); a response with status and status
  text arrives whose body is not JSON, so that \<^verbatim>\<open>json()\<close> rejects with a SyntaxError
  (with the parser's message); or a response with status, status text and parsed body
  arrives.
\<close>

datatype fetch_outcome =
    FetchRejected string
  | JsonRejected nat string string
  | Responded nat string jsval

type_synonym backend = "http_request \<Rightarrow> fetch_outcome"

text \<open>
  An asynchronous computation: its result (a rejection on the left) and the requests it
  has sent.
\<close>

type_synonym 'a io = "(js_error + 'a) \<times> http_request list"

definition return_io :: "'a \<Rightarrow> 'a io" where
  "return_io x = (Inr x, [])"

definition throw_io :: "js_error \<Rightarrow> 'a io" where
  "throw_io e = (Inl e, [])"

definition bind_io :: "'a io \<Rightarrow> ('a \<Rightarrow> 'b io) \<Rightarrow> 'b io" where
  "bind_io m f =
     (case m of
        (Inl e, t) \<Rightarrow> (Inl e, t)
      | (Inr x, t) \<Rightarrow> (case f x of (r, t') \<Rightarrow> (r, t @ t')))"

record client =
  apiToken :: string

definition baseUrl :: string where
  "baseUrl = ''https://api.clickup.com/api/v2''"

text \<open>\<^verbatim>\<open>response.ok\<close>\<close>

definition response_ok :: "nat \<Rightarrow> bool" where
  "response_ok status = (200 \<le> status \<and> status \<le> 299)"

text \<open>
  One step of the \<^verbatim>\<open>Object.entries(queryParams).forEach\<close> loop: the search parameters
  so far, extended for one entry.
\<close>

definition append_query :: "(string \<times> string) list \<Rightarrow> string \<times> jsval \<Rightarrow> (string \<times> string) list" where
  "append_query sp kv =
     (case kv of (key, val) \<Rightarrow>
        if val \<noteq> JUndefined \<and> val \<noteq> JNull then
          (case val of
             JArr vs \<Rightarrow> foldl (\<lambda>sp v. sp @ [(key @ ''[]'', js_String v)]) sp vs
           | _ \<Rightarrow> sp @ [(key, js_String val)])
        else sp)"

definition query_pairs :: "(string \<times> jsval) list option \<Rightarrow> (string \<times> string) list" where
  "query_pairs queryParams =
     (case queryParams of None \<Rightarrow> [] | Some entries \<Rightarrow> foldl append_query [] entries)"

text \<open>The URL and the options handed to \<^verbatim>\<open>fetch\<close>.\<close>

definition build_request ::
  "client \<Rightarrow> string \<Rightarrow> string \<Rightarrow> jsval \<Rightarrow> (string \<times> jsval) list option \<Rightarrow> http_request" where
  "build_request cl method path body queryParams =
     \<lparr> req_method = method,
       req_url = baseUrl @ path,
       req_query = query_pairs queryParams,
       req_headers = [(''Authorization'', apiToken cl),
                      (''Content-Type'', ''application/json'')],
       req_body = (if truthy body then JSON_stringify body else None) \<rparr>"

text \<open>
  What \<^verbatim>\<open>request\<close> makes of the outcome: the parsed body of a response in the success
  range, and a rejection otherwise. The body is parsed before \<^verbatim>\<open>response.ok\<close> is
  tested, so a body that is not JSON rejects whatever the status.
\<close>

definition settle :: "fetch_outcome \<Rightarrow> js_error + jsval" where
  "settle outcome =
     (case outcome of
        FetchRejected m \<Rightarrow> Inl (TypeError m)
      | JsonRejected status statusText m \<Rightarrow> Inl (SyntaxError m)
      | Responded status statusText responseData \<Rightarrow>
          if \<not> response_ok status then
            Inl (Error (''ClickUp API error: '' @ string_of_nat status @ '' '' @ statusText
                        @ newline @ str_or_undefined (JSON_stringify2 responseData)))
          else Inr responseData)"

definition request ::
  "client \<Rightarrow> backend \<Rightarrow> string \<Rightarrow> string \<Rightarrow> jsval \<Rightarrow> (string \<times> jsval) list option \<Rightarrow> jsval io" where
  "request cl fetch method path body queryParams =
     (let req = build_request cl method path body queryParams
      in (settle (fetch req), [req]))"

subsection \<open>Synchronous helpers that can throw\<close>

definition bind_err :: "js_error + 'a \<Rightarrow> ('a \<Rightarrow> js_error + 'b) \<Rightarrow> js_error + 'b" where
  "bind_err m f = (case m of Inl e \<Rightarrow> Inl e | Inr x \<Rightarrow> f x)"

fun map_err :: "('a \<Rightarrow> js_error + 'b) \<Rightarrow> 'a list \<Rightarrow> js_error + 'b list" where
  "map_err f [] = Inr []"
| "map_err f (x # xs) =
     bind_err (f x) (\<lambda>y. bind_err (map_err f xs) (\<lambda>ys. Inr (y # ys)))"

definition lift_io :: "js_error + 'a \<Rightarrow> 'a io" where
  "lift_io r = (r, [])"

text \<open>
  Member access \<^verbatim>\<open>v.k\<close> (and the destructuring \<^verbatim>\<open>const { k } = v\<close>) for the
  property names the client reads (none of them exists on a string, number, boolean or
  array): a TypeError on \<^verbatim>\<open>undefined\<close> and \<^verbatim>\<open>null\<close>. The message is the engine's.
\<close>

definition cannot_read :: "string \<Rightarrow> string \<Rightarrow> js_error" where
  "cannot_read what k =
     TypeError (''Cannot read properties of '' @ what @ '' (reading '' @ [CHR 0x27] @ k
                @ [CHR 0x27] @ '')'')"

fun get_prop :: "jsval \<Rightarrow> string \<Rightarrow> js_error + jsval" where
  "get_prop JUndefined k = Inl (cannot_read ''undefined'' k)"
| "get_prop JNull k = Inl (cannot_read ''null'' k)"
| "get_prop (JObj ps) k = Inr (lookup_prop ps k)"
| "get_prop v k = Inr JUndefined"

text \<open>
  The receiver of \<^verbatim>\<open>.map\<close>, \<^verbatim>\<open>.flatMap\<close> and \<^verbatim>\<open>.filter\<close>: parsed JSON carries no
  functions, so on anything but an array the call throws a TypeError.
\<close>

fun array_method :: "string \<Rightarrow> jsval \<Rightarrow> js_error + jsval list" where
  "array_method m (JArr xs) = Inr xs"
| "array_method m JUndefined = Inl (cannot_read ''undefined'' m)"
| "array_method m JNull = Inl (cannot_read ''null'' m)"
| "array_method m v = Inl (TypeError (m @ '' is not a function''))"

definition js_map :: "(jsval \<Rightarrow> js_error + jsval) \<Rightarrow> jsval \<Rightarrow> js_error + jsval list" where
  "js_map f v = bind_err (array_method ''map'' v) (map_err f)"

definition js_flatMap :: "(jsval \<Rightarrow> js_error + jsval list) \<Rightarrow> jsval \<Rightarrow> js_error + jsval list" where
  "js_flatMap f v =
     bind_err (array_method ''flatMap'' v) (\<lambda>xs. bind_err (map_err f xs) (\<lambda>ys. Inr (concat ys)))"

definition js_filter :: "(jsval \<Rightarrow> js_error + bool) \<Rightarrow> jsval \<Rightarrow> js_error + jsval list" where
  "js_filter p v =
     bind_err (array_method ''filter'' v)
       (\<lambda>xs. bind_err (map_err p xs) (\<lambda>bs. Inr (map fst (filter snd (zip xs bs)))))"

text \<open>
  \<^verbatim>\<open>Set.prototype.has\<close> compares with SameValueZero: primitives by value, objects and
  arrays by reference. The two sides always come from two different parsed responses, so
  an object or array is never found.
\<close>

fun same_value_zero :: "jsval \<Rightarrow> jsval \<Rightarrow> bool" where
  "same_value_zero (JArr xs) b = False"
| "same_value_zero (JObj ps) b = False"
| "same_value_zero a b = (a = b)"

definition set_has :: "jsval list \<Rightarrow> jsval \<Rightarrow> bool" where
  "set_has elems v = list_ex (\<lambda>e. same_value_zero e v) elems"

text \<open>
  Object spread \<^verbatim>\<open>{...v}\<close>: the own enumerable properties, which for an array or a
  string are its indices; nothing for the other primitives.
\<close>

fun spread :: "jsval \<Rightarrow> (string \<times> jsval) list" where
  "spread (JObj ps) = ps"
| "spread (JArr xs) = zip (map string_of_nat [0..<length xs]) xs"
| "spread (JStr s) = zip (map string_of_nat [0..<length s]) (map (\<lambda>c. JStr [c]) s)"
| "spread v = []"

text \<open>
  \<^verbatim>\<open>Promise.all\<close>: every computation has been started, so all their requests are sent
  whether or not one of them rejects; the results come in the order of the input array.
  When several reject, the one reported here is the first in array order, and the requests
  are listed in array order: the order in time is not modelled.
\<close>

fun promise_all :: "'a io list \<Rightarrow> 'a list io" where
  "promise_all [] = (Inr [], [])"
| "promise_all (m # ms) =
     (case m of (r, t) \<Rightarrow>
        (case promise_all ms of (rs, ts) \<Rightarrow>
           (bind_err r (\<lambda>x. bind_err rs (\<lambda>xs. Inr (x # xs))), t @ ts)))"

subsection \<open>Task, comment and dependency operations\<close>

definition createTask :: "client \<Rightarrow> backend \<Rightarrow> jsval \<Rightarrow> jsval \<Rightarrow> jsval io" where
  "createTask cl fetch listId task =
     request cl fetch ''POST'' (''/list/'' @ js_String listId @ ''/task'') task None"

definition getTask :: "client \<Rightarrow> backend \<Rightarrow> jsval \<Rightarrow> jsval io" where
  "getTask cl fetch taskId =
     request cl fetch ''GET'' (''/task/'' @ js_String taskId) JUndefined None"

definition updateTask :: "client \<Rightarrow> backend \<Rightarrow> jsval \<Rightarrow> jsval \<Rightarrow> jsval io" where
  "updateTask cl fetch taskId updates =
     request cl fetch ''PUT'' (''/task/'' @ js_String taskId) updates None"

definition deleteTask :: "client \<Rightarrow> backend \<Rightarrow> jsval \<Rightarrow> jsval io" where
  "deleteTask cl fetch taskId =
     request cl fetch ''DELETE'' (''/task/'' @ js_String taskId) JUndefined None"

text \<open>
  \<^verbatim>\<open>{...params, archived: params?.archived ?? false, page: params?.page ?? 0,
  include_closed: params?.include_closed ?? false}\<close>, with \<open>None\<close> for an omitted
  \<^verbatim>\<open>params\<close>.
\<close>

definition listTasks_queryParams :: "(string \<times> jsval) list option \<Rightarrow> (string \<times> jsval) list" where
  "listTasks_queryParams params =
     (let ps = (case params of None \<Rightarrow> [] | Some p \<Rightarrow> p);
          q0 = ps;
          q1 = set_prop q0 ''archived'' (nullish_or (lookup_prop ps ''archived'') (JBool False));
          q2 = set_prop q1 ''page'' (nullish_or (lookup_prop ps ''page'') (JNum 0));
          q3 = set_prop q2 ''include_closed''
                 (nullish_or (lookup_prop ps ''include_closed'') (JBool False))
      in q3)"

definition listTasks ::
  "client \<Rightarrow> backend \<Rightarrow> jsval \<Rightarrow> (string \<times> jsval) list option \<Rightarrow> jsval io" where
  "listTasks cl fetch listId params =
     request cl fetch ''GET'' (''/list/'' @ js_String listId @ ''/task'') JUndefined
       (Some (listTasks_queryParams params))"

definition searchTasks_queryParams :: "(string \<times> jsval) list \<Rightarrow> (string \<times> jsval) list" where
  "searchTasks_queryParams params =
     (let q0 = params;
          q1 = set_prop q0 ''page'' (nullish_or (lookup_prop params ''page'') (JNum 0));
          q2 = set_prop q1 ''include_closed''
                 (nullish_or (lookup_prop params ''include_closed'') (JBool False))
      in q2)"

definition searchTasks ::
  "client \<Rightarrow> backend \<Rightarrow> jsval \<Rightarrow> (string \<times> jsval) list \<Rightarrow> jsval io" where
  "searchTasks cl fetch teamId params =
     request cl fetch ''GET'' (''/team/'' @ js_String teamId @ ''/task'') JUndefined
       (Some (searchTasks_queryParams params))"

definition createComment :: "client \<Rightarrow> backend \<Rightarrow> jsval \<Rightarrow> jsval \<Rightarrow> jsval io" where
  "createComment cl fetch taskId comment =
     request cl fetch ''POST'' (''/task/'' @ js_String taskId @ ''/comment'') comment None"

definition getComments :: "client \<Rightarrow> backend \<Rightarrow> jsval \<Rightarrow> jsval io" where
  "getComments cl fetch taskId =
     request cl fetch ''GET'' (''/task/'' @ js_String taskId @ ''/comment'') JUndefined None"

definition addDependency :: "client \<Rightarrow> backend \<Rightarrow> jsval \<Rightarrow> jsval \<Rightarrow> jsval io" where
  "addDependency cl fetch taskId dependency =
     request cl fetch ''POST'' (''/task/'' @ js_String taskId @ ''/dependency'') dependency None"

definition deleteDependency ::
  "client \<Rightarrow> backend \<Rightarrow> jsval \<Rightarrow> (string \<times> jsval) list \<Rightarrow> jsval io" where
  "deleteDependency cl fetch taskId params =
     request cl fetch ''DELETE'' (''/task/'' @ js_String taskId @ ''/dependency'') JUndefined
       (Some params)"

definition getTaskWithDependencies :: "client \<Rightarrow> backend \<Rightarrow> jsval \<Rightarrow> jsval io" where
  "getTaskWithDependencies cl fetch taskId = getTask cl fetch taskId"

subsection \<open>Workspace operations\<close>

definition getAuthorizedTeams :: "client \<Rightarrow> backend \<Rightarrow> jsval io" where
  "getAuthorizedTeams cl fetch = request cl fetch ''GET'' ''/team'' JUndefined None"

definition getSpaces :: "client \<Rightarrow> backend \<Rightarrow> jsval \<Rightarrow> jsval io" where
  "getSpaces cl fetch teamId =
     request cl fetch ''GET'' (''/team/'' @ js_String teamId @ ''/space'') JUndefined None"

definition getLists :: "client \<Rightarrow> backend \<Rightarrow> jsval \<Rightarrow> jsval io" where
  "getLists cl fetch spaceId =
     request cl fetch ''GET'' (''/space/'' @ js_String spaceId @ ''/list'') JUndefined None"

text \<open>
  \<^verbatim>\<open>getFolders(spaceId, archived = false)\<close>: the default applies to an omitted
  (\<^verbatim>\<open>undefined\<close>) argument; a rejected request is caught and replaced by
  \<^verbatim>\<open>{ folders: [] }\<close>.
\<close>

definition getFolders :: "client \<Rightarrow> backend \<Rightarrow> jsval \<Rightarrow> jsval \<Rightarrow> jsval io" where
  "getFolders cl fetch spaceId archived =
     (let archived' = (if archived = JUndefined then JBool False else archived) in
      case request cl fetch ''GET'' (''/space/'' @ js_String spaceId @ ''/folder'') JUndefined
             (Some [(''archived'', archived')]) of
        (Inl error, t) \<Rightarrow> (Inr (JObj [(''folders'', JArr [])]), t)
      | (Inr r, t) \<Rightarrow> (Inr r, t))"

text \<open>\<^verbatim>\<open>list => ({ id: list.id, name: list.name })\<close>\<close>

definition list_id_name :: "jsval \<Rightarrow> js_error + jsval" where
  "list_id_name list =
     bind_err (get_prop list ''id'') (\<lambda>i.
     bind_err (get_prop list ''name'') (\<lambda>n.
     Inr (JObj [(''id'', i), (''name'', n)])))"

text \<open>
  \<^verbatim>\<open>folder => ({ id: folder.id, name: folder.name,
  lists: (folder.lists || []).map(list => ({ id: list.id, name: list.name })) })\<close>
\<close>

definition folder_with_lists :: "jsval \<Rightarrow> js_error + jsval" where
  "folder_with_lists folder =
     bind_err (get_prop folder ''id'') (\<lambda>i.
     bind_err (get_prop folder ''name'') (\<lambda>n.
     bind_err (get_prop folder ''lists'') (\<lambda>ls.
     bind_err (js_map list_id_name (js_or ls (JArr []))) (\<lambda>lists.
     Inr (JObj [(''id'', i), (''name'', n), (''lists'', JArr lists)])))))"

text \<open>\<^verbatim>\<open>folder => (folder.lists || []).map(list => list.id)\<close>\<close>

definition folder_list_ids :: "jsval \<Rightarrow> js_error + jsval list" where
  "folder_list_ids folder =
     bind_err (get_prop folder ''lists'') (\<lambda>ls.
     js_map (\<lambda>list. get_prop list ''id'') (js_or ls (JArr [])))"

text \<open>The callback of \<^verbatim>\<open>spaces.map\<close> in \<^verbatim>\<open>getWorkspaceStructure\<close>.\<close>

definition space_with_folders_and_lists :: "client \<Rightarrow> backend \<Rightarrow> jsval \<Rightarrow> jsval io" where
  "space_with_folders_and_lists cl fetch space =
     bind_io (lift_io (get_prop space ''id'')) (\<lambda>spaceId.
     bind_io (getFolders cl fetch spaceId JUndefined) (\<lambda>fr.
     bind_io (lift_io (get_prop fr ''folders'')) (\<lambda>folders.
     bind_io (lift_io (js_map folder_with_lists folders)) (\<lambda>foldersWithLists.
     bind_io (getLists cl fetch spaceId) (\<lambda>lr.
     bind_io (lift_io (get_prop lr ''lists'')) (\<lambda>allSpaceLists.
     bind_io (lift_io (js_flatMap folder_list_ids folders)) (\<lambda>listsInFolders.
     bind_io (lift_io (js_filter
                (\<lambda>list. bind_err (get_prop list ''id'')
                           (\<lambda>i. Inr (\<not> set_has listsInFolders i)))
                allSpaceLists)) (\<lambda>folderlessLists.
     return_io (JObj (set_prop (set_prop (spread space)
                        ''folders'' (JArr foldersWithLists))
                        ''lists'' (JArr folderlessLists)))))))))))"

text \<open>The callback of \<^verbatim>\<open>teams.map\<close>.\<close>

definition team_with_spaces :: "client \<Rightarrow> backend \<Rightarrow> jsval \<Rightarrow> jsval io" where
  "team_with_spaces cl fetch team =
     bind_io (lift_io (get_prop team ''id'')) (\<lambda>teamId.
     bind_io (getSpaces cl fetch teamId) (\<lambda>sr.
     bind_io (lift_io (get_prop sr ''spaces'')) (\<lambda>spaces.
     bind_io (lift_io (array_method ''map'' spaces)) (\<lambda>spaceList.
     bind_io (promise_all (map (space_with_folders_and_lists cl fetch) spaceList))
       (\<lambda>spacesWithFoldersAndLists.
     return_io (JObj (set_prop (spread team) ''spaces'' (JArr spacesWithFoldersAndLists))))))))"

definition getWorkspaceStructure :: "client \<Rightarrow> backend \<Rightarrow> jsval io" where
  "getWorkspaceStructure cl fetch =
     bind_io (getAuthorizedTeams cl fetch) (\<lambda>tr.
     bind_io (lift_io (get_prop tr ''teams'')) (\<lambda>teams.
     bind_io (lift_io (array_method ''map'' teams)) (\<lambda>teamList.
     bind_io (promise_all (map (team_with_spaces cl fetch) teamList)) (\<lambda>result.
     return_io (JObj [(''teams'', JArr result)])))))"

section \<open>Request dispatcher (src/index.ts)\<close>

record content_item =
  content_type :: string
  content_text :: "string option"

text \<open>A tool response; \<open>isError\<close> is \<open>None\<close> when the property is not set.\<close>

record tool_result =
  content :: "content_item list"
  isError :: "bool option"

definition text_result :: "string option \<Rightarrow> tool_result" where
  "text_result t = \<lparr> content = [\<lparr> content_type = ''text'', content_text = t \<rparr>], isError = None \<rparr>"

text \<open>The response built by the \<^verbatim>\<open>catch\<close> block of the handler.\<close>

definition error_result :: "js_error \<Rightarrow> tool_result" where
  "error_result error =
     \<lparr> content = [\<lparr> content_type = ''text'',
                     content_text = Some (''Error: '' @ message error) \<rparr>],
       isError = Some True \<rparr>"

text \<open>
  The protocol delivers \<^verbatim>\<open>arguments\<close> as an object or not at all (\<open>None\<close>). Every
  case that reads \<^verbatim>\<open>typedArgs\<close> throws on absent arguments at its first property read,
  \<open>k\<close>.
\<close>

definition with_args ::
  "(string \<times> jsval) list option \<Rightarrow> string \<Rightarrow> ((string \<times> jsval) list \<Rightarrow> 'a io) \<Rightarrow> 'a io" where
  "with_args args k body =
     (case args of None \<Rightarrow> throw_io (cannot_read ''undefined'' k) | Some a \<Rightarrow> body a)"

text \<open>An object literal \<^verbatim>\<open>{ k1: typedArgs.k1, ..., kn: typedArgs.kn }\<close>.\<close>

definition pick :: "(string \<times> jsval) list \<Rightarrow> string list \<Rightarrow> (string \<times> jsval) list" where
  "pick a ks = map (\<lambda>k. (k, lookup_prop a k)) ks"

definition tool_create_task ::
  "client \<Rightarrow> backend \<Rightarrow> (string \<times> jsval) list option \<Rightarrow> tool_result io" where
  "tool_create_task cl fetch args =
     with_args args ''list_id'' (\<lambda>typedArgs.
     bind_io (createTask cl fetch (lookup_prop typedArgs ''list_id'')
                (JObj (pick typedArgs
                   [''name'', ''description'', ''markdown_description'', ''assignees'', ''tags'',
                    ''status'', ''priority'', ''due_date'', ''time_estimate'', ''start_date'',
                    ''notify_all'', ''parent'']))) (\<lambda>task.
     return_io (text_result (JSON_stringify2 task))))"

definition tool_get_task ::
  "client \<Rightarrow> backend \<Rightarrow> (string \<times> jsval) list option \<Rightarrow> tool_result io" where
  "tool_get_task cl fetch args =
     with_args args ''task_id'' (\<lambda>typedArgs.
     bind_io (getTask cl fetch (lookup_prop typedArgs ''task_id'')) (\<lambda>task.
     return_io (text_result (JSON_stringify2 task))))"

text \<open>\<^verbatim>\<open>if (typedArgs.k !== undefined) updates.k = typedArgs.k;\<close>\<close>

definition copy_defined ::
  "(string \<times> jsval) list \<Rightarrow> (string \<times> jsval) list \<Rightarrow> string \<Rightarrow> (string \<times> jsval) list" where
  "copy_defined typedArgs updates k =
     (if lookup_prop typedArgs k \<noteq> JUndefined then set_prop updates k (lookup_prop typedArgs k)
      else updates)"

text \<open>
  \<^verbatim>\<open>if (add || rem) { updates.k = {}; if (add) updates.k.add = add;
  if (rem) updates.k.rem = rem; }\<close>
\<close>

definition add_rem ::
  "(string \<times> jsval) list \<Rightarrow> string \<Rightarrow> jsval \<Rightarrow> jsval \<Rightarrow> (string \<times> jsval) list" where
  "add_rem updates k add rem =
     (if truthy add \<or> truthy rem then
        (let o0 = [];
             o1 = (if truthy add then set_prop o0 ''add'' add else o0);
             o2 = (if truthy rem then set_prop o1 ''rem'' rem else o1)
         in set_prop updates k (JObj o2))
      else updates)"

definition update_fields :: "string list" where
  "update_fields = [''name'', ''description'', ''markdown_description'', ''status'', ''priority'',
                    ''due_date'', ''time_estimate'', ''archived'']"

text \<open>The \<^verbatim>\<open>updates\<close> object of \<^verbatim>\<open>clickup_update_task\<close>.\<close>

definition update_task_updates :: "(string \<times> jsval) list \<Rightarrow> (string \<times> jsval) list" where
  "update_task_updates typedArgs =
     (let u0 = foldl (copy_defined typedArgs) [] update_fields;
          u1 = add_rem u0 ''assignees'' (lookup_prop typedArgs ''assignees_add'')
                                        (lookup_prop typedArgs ''assignees_rem'');
          u2 = add_rem u1 ''tags'' (lookup_prop typedArgs ''tags_add'')
                                   (lookup_prop typedArgs ''tags_rem'')
      in u2)"

definition tool_update_task ::
  "client \<Rightarrow> backend \<Rightarrow> (string \<times> jsval) list option \<Rightarrow> tool_result io" where
  "tool_update_task cl fetch args =
     with_args args ''name'' (\<lambda>typedArgs.
     bind_io (updateTask cl fetch (lookup_prop typedArgs ''task_id'')
                (JObj (update_task_updates typedArgs))) (\<lambda>task.
     return_io (text_result (JSON_stringify2 task))))"

definition tool_delete_task ::
  "client \<Rightarrow> backend \<Rightarrow> (string \<times> jsval) list option \<Rightarrow> tool_result io" where
  "tool_delete_task cl fetch args =
     with_args args ''task_id'' (\<lambda>typedArgs.
     bind_io (deleteTask cl fetch (lookup_prop typedArgs ''task_id'')) (\<lambda>_.
     return_io (text_result
       (Some (''Task '' @ js_String (lookup_prop typedArgs ''task_id'')
              @ '' has been deleted successfully.'')))))"

definition tool_list_tasks ::
  "client \<Rightarrow> backend \<Rightarrow> (string \<times> jsval) list option \<Rightarrow> tool_result io" where
  "tool_list_tasks cl fetch args =
     with_args args ''list_id'' (\<lambda>typedArgs.
     bind_io (listTasks cl fetch (lookup_prop typedArgs ''list_id'')
                (Some (pick typedArgs
                   [''page'', ''archived'', ''include_closed'', ''assignees'', ''statuses'',
                    ''tags'', ''due_date_gt'', ''due_date_lt'']))) (\<lambda>response.
     return_io (text_result (JSON_stringify2 response))))"

text \<open>
  The scope switch of \<^verbatim>\<open>clickup_search_tasks\<close>. \<^verbatim>\<open>typedArgs.team_id!\<close> is a
  compile-time assertion only: the value is passed on as it is.
\<close>

definition search_scope ::
  "client \<Rightarrow> backend \<Rightarrow> (string \<times> jsval) list \<Rightarrow> (string \<times> jsval) list \<Rightarrow> jsval io" where
  "search_scope cl fetch typedArgs searchParams =
     (let scope = lookup_prop typedArgs ''scope'' in
      if scope = JStr ''workspace'' then
        (if \<not> truthy (lookup_prop typedArgs ''team_id'')
         then throw_io (Error ''team_id is required for workspace scope'')
         else searchTasks cl fetch (lookup_prop typedArgs ''team_id'') searchParams)
      else if scope = JStr ''space'' then
        (if \<not> truthy (lookup_prop typedArgs ''space_id'')
         then throw_io (Error ''space_id is required for space scope'')
         else searchTasks cl fetch (lookup_prop typedArgs ''team_id'')
                (set_prop searchParams ''space_ids'' (JArr [lookup_prop typedArgs ''space_id''])))
      else if scope = JStr ''folder'' then
        (if \<not> truthy (lookup_prop typedArgs ''folder_id'')
         then throw_io (Error ''folder_id is required for folder scope'')
         else searchTasks cl fetch (lookup_prop typedArgs ''team_id'')
                (set_prop searchParams ''folder_ids'' (JArr [lookup_prop typedArgs ''folder_id''])))
      else if scope = JStr ''list'' then
        (if \<not> truthy (lookup_prop typedArgs ''list_id'')
         then throw_io (Error ''list_id is required for list scope'')
         else searchTasks cl fetch (lookup_prop typedArgs ''team_id'')
                (set_prop searchParams ''list_ids'' (JArr [lookup_prop typedArgs ''list_id''])))
      else throw_io (Error (''Invalid scope: '' @ js_String scope)))"

definition tool_search_tasks ::
  "client \<Rightarrow> backend \<Rightarrow> (string \<times> jsval) list option \<Rightarrow> tool_result io" where
  "tool_search_tasks cl fetch args =
     with_args args ''query'' (\<lambda>typedArgs.
     bind_io (search_scope cl fetch typedArgs
                (pick typedArgs
                   [''query'', ''page'', ''include_closed'', ''assignees'', ''statuses'',
                    ''tags'', ''due_date_gt'', ''due_date_lt''])) (\<lambda>response.
     return_io (text_result (JSON_stringify2 response))))"

definition tool_add_comment ::
  "client \<Rightarrow> backend \<Rightarrow> (string \<times> jsval) list option \<Rightarrow> tool_result io" where
  "tool_add_comment cl fetch args =
     with_args args ''task_id'' (\<lambda>typedArgs.
     bind_io (createComment cl fetch (lookup_prop typedArgs ''task_id'')
                (JObj (pick typedArgs [''comment_text'', ''assignee'', ''notify_all'']))) (\<lambda>comment.
     return_io (text_result (JSON_stringify2 comment))))"

definition tool_list_comments ::
  "client \<Rightarrow> backend \<Rightarrow> (string \<times> jsval) list option \<Rightarrow> tool_result io" where
  "tool_list_comments cl fetch args =
     with_args args ''task_id'' (\<lambda>typedArgs.
     bind_io (getComments cl fetch (lookup_prop typedArgs ''task_id'')) (\<lambda>response.
     return_io (text_result (JSON_stringify2 response))))"

definition tool_add_dependency ::
  "client \<Rightarrow> backend \<Rightarrow> (string \<times> jsval) list option \<Rightarrow> tool_result io" where
  "tool_add_dependency cl fetch args =
     with_args args ''task_id'' (\<lambda>typedArgs.
     bind_io (addDependency cl fetch (lookup_prop typedArgs ''task_id'')
                (JObj (pick typedArgs [''depends_on'', ''dependency_of'']))) (\<lambda>dependency.
     return_io (text_result (JSON_stringify2 dependency))))"

definition tool_remove_dependency ::
  "client \<Rightarrow> backend \<Rightarrow> (string \<times> jsval) list option \<Rightarrow> tool_result io" where
  "tool_remove_dependency cl fetch args =
     with_args args ''task_id'' (\<lambda>typedArgs.
     bind_io (deleteDependency cl fetch (lookup_prop typedArgs ''task_id'')
                (pick typedArgs [''depends_on'', ''dependency_of''])) (\<lambda>_.
     return_io (text_result
       (Some (''Dependency removed successfully from task ''
              @ js_String (lookup_prop typedArgs ''task_id''))))))"

definition tool_list_dependencies ::
  "client \<Rightarrow> backend \<Rightarrow> (string \<times> jsval) list option \<Rightarrow> tool_result io" where
  "tool_list_dependencies cl fetch args =
     with_args args ''task_id'' (\<lambda>typedArgs.
     bind_io (getTaskWithDependencies cl fetch (lookup_prop typedArgs ''task_id'')) (\<lambda>task.
     bind_io (lift_io (get_prop task ''id'')) (\<lambda>task_id.
     bind_io (lift_io (get_prop task ''name'')) (\<lambda>task_name.
     bind_io (lift_io (get_prop task ''dependencies'')) (\<lambda>dependencies.
     bind_io (lift_io (get_prop task ''linked_tasks'')) (\<lambda>linked_tasks.
     return_io (text_result (JSON_stringify2
       (JObj [(''task_id'', task_id), (''task_name'', task_name),
              (''dependencies'', js_or dependencies (JArr [])),
              (''linked_tasks'', js_or linked_tasks (JArr []))])))))))))"

definition tool_get_workspace_structure :: "client \<Rightarrow> backend \<Rightarrow> tool_result io" where
  "tool_get_workspace_structure cl fetch =
     bind_io (getWorkspaceStructure cl fetch) (\<lambda>structure.
     return_io (text_result (JSON_stringify2 structure)))"

text \<open>The \<^verbatim>\<open>switch (name)\<close> inside the handler's \<^verbatim>\<open>try\<close> block.\<close>

definition dispatch ::
  "client \<Rightarrow> backend \<Rightarrow> string \<Rightarrow> (string \<times> jsval) list option \<Rightarrow> tool_result io" where
  "dispatch cl fetch name args =
     (if name = ''clickup_create_task'' then tool_create_task cl fetch args
      else if name = ''clickup_get_task'' then tool_get_task cl fetch args
      else if name = ''clickup_update_task'' then tool_update_task cl fetch args
      else if name = ''clickup_delete_task'' then tool_delete_task cl fetch args
      else if name = ''clickup_list_tasks'' then tool_list_tasks cl fetch args
      else if name = ''clickup_search_tasks'' then tool_search_tasks cl fetch args
      else if name = ''clickup_add_comment'' then tool_add_comment cl fetch args
      else if name = ''clickup_list_comments'' then tool_list_comments cl fetch args
      else if name = ''clickup_add_dependency'' then tool_add_dependency cl fetch args
      else if name = ''clickup_remove_dependency'' then tool_remove_dependency cl fetch args
      else if name = ''clickup_list_dependencies'' then tool_list_dependencies cl fetch args
      else if name = ''clickup_get_workspace_structure'' then tool_get_workspace_structure cl fetch
      else throw_io (Error (''Unknown tool: '' @ name)))"

text \<open>
  The \<^verbatim>\<open>CallToolRequestSchema\<close> handler: the response and the requests sent while
  producing it.
\<close>

definition call_tool ::
  "client \<Rightarrow> backend \<Rightarrow> string \<Rightarrow> (string \<times> jsval) list option
     \<Rightarrow> tool_result \<times> http_request list" where
  "call_tool cl fetch name args =
     (case dispatch cl fetch name args of
        (Inl error, t) \<Rightarrow> (error_result error, t)
      | (Inr result, t) \<Rightarrow> (result, t))"

section \<open>Reference descriptions and sample inputs\<close>

text \<open>
  The search parameters contributed by one entry of a query-parameter object, described
  directly: nothing for \<^verbatim>\<open>undefined\<close> and \<^verbatim>\<open>null\<close>, one pair per element under
  the key with the suffix \<^verbatim>\<open>[]\<close> for an array, one pair under the key otherwise.
\<close>

definition entry_pairs :: "string \<times> jsval \<Rightarrow> (string \<times> string) list" where
  "entry_pairs kv =
     (case kv of (key, val) \<Rightarrow>
        (case val of
           JUndefined \<Rightarrow> []
         | JNull \<Rightarrow> []
         | JArr vs \<Rightarrow> map (\<lambda>v. (key @ ''[]'', js_String v)) vs
         | _ \<Rightarrow> [(key, js_String val)]))"

definition sample_client :: client where
  "sample_client = \<lparr> apiToken = ''pk_test'' \<rparr>"

text \<open>A backend that answers every request with an empty page of tasks.\<close>

definition empty_tasks_backend :: backend where
  "empty_tasks_backend req =
     Responded 200 ''OK'' (JObj [(''tasks'', JArr []), (''last_page'', JBool True)])"

text \<open>A backend that answers every request with 404.\<close>

definition not_found_backend :: backend where
  "not_found_backend req =
     Responded 404 ''Not Found'' (JObj [(''err'', JStr ''Task not found'')])"

text \<open>The properties of an object that \<^verbatim>\<open>JSON.stringify\<close> keeps: those not \<^verbatim>\<open>undefined\<close>.\<close>

definition supplied :: "(string \<times> jsval) list \<Rightarrow> (string \<times> jsval) list" where
  "supplied ps = filter (\<lambda>kv. snd kv \<noteq> JUndefined) ps"

text \<open>The names of the tool catalog \<^verbatim>\<open>TOOLS\<close>, which are the cases of the dispatcher.\<close>

definition tool_names :: "string list" where
  "tool_names =
     [''clickup_create_task'', ''clickup_get_task'', ''clickup_update_task'',
      ''clickup_delete_task'', ''clickup_list_tasks'', ''clickup_search_tasks'',
      ''clickup_add_comment'', ''clickup_list_comments'', ''clickup_add_dependency'',
      ''clickup_remove_dependency'', ''clickup_list_dependencies'',
      ''clickup_get_workspace_structure'']"

subsection \<open>The workspace tree, described from the responses\<close>

text \<open>Reading a value as an object or as an array, with nothing there when it is not one.\<close>

definition prop_of :: "jsval \<Rightarrow> string \<Rightarrow> jsval" where
  "prop_of v k = (case v of JObj ps \<Rightarrow> lookup_prop ps k | _ \<Rightarrow> JUndefined)"

definition array_of :: "jsval \<Rightarrow> jsval list" where
  "array_of v = (case v of JArr xs \<Rightarrow> xs | _ \<Rightarrow> [])"

text \<open>What the backend answers to a GET, as \<^verbatim>\<open>request\<close> settles it.\<close>

definition fetched ::
  "client \<Rightarrow> backend \<Rightarrow> string \<Rightarrow> (string \<times> jsval) list option \<Rightarrow> js_error + jsval" where
  "fetched cl fetch path q = settle (fetch (build_request cl ''GET'' path JUndefined q))"

definition response_of ::
  "client \<Rightarrow> backend \<Rightarrow> string \<Rightarrow> (string \<times> jsval) list option \<Rightarrow> jsval" where
  "response_of cl fetch path q = (case fetched cl fetch path q of Inl e \<Rightarrow> JUndefined | Inr r \<Rightarrow> r)"

text \<open>
  The four kinds of responses: the teams, the spaces of a team, the folders of a space
  (none when that fetch fails) and all lists of a space.
\<close>

definition teams_response :: "client \<Rightarrow> backend \<Rightarrow> jsval list" where
  "teams_response cl fetch = array_of (prop_of (response_of cl fetch ''/team'' None) ''teams'')"

definition spaces_response :: "client \<Rightarrow> backend \<Rightarrow> jsval \<Rightarrow> jsval list" where
  "spaces_response cl fetch team =
     array_of (prop_of (response_of cl fetch
        (''/team/'' @ js_String (prop_of team ''id'') @ ''/space'') None) ''spaces'')"

definition folders_response :: "client \<Rightarrow> backend \<Rightarrow> jsval \<Rightarrow> jsval list" where
  "folders_response cl fetch space =
     array_of (prop_of (response_of cl fetch
        (''/space/'' @ js_String (prop_of space ''id'') @ ''/folder'')
        (Some [(''archived'', JBool False)])) ''folders'')"

definition lists_response :: "client \<Rightarrow> backend \<Rightarrow> jsval \<Rightarrow> jsval list" where
  "lists_response cl fetch space =
     array_of (prop_of (response_of cl fetch
        (''/space/'' @ js_String (prop_of space ''id'') @ ''/list'') None) ''lists'')"

text \<open>The lists embedded in a folder, and a list reduced to its id and name.\<close>

definition embedded_lists :: "jsval \<Rightarrow> jsval list" where
  "embedded_lists folder = array_of (prop_of folder ''lists'')"

definition id_and_name :: "jsval \<Rightarrow> jsval" where
  "id_and_name v = JObj [(''id'', prop_of v ''id''), (''name'', prop_of v ''name'')]"

definition folder_entry :: "jsval \<Rightarrow> jsval" where
  "folder_entry folder =
     JObj [(''id'', prop_of folder ''id''), (''name'', prop_of folder ''name''),
           (''lists'', JArr (map id_and_name (embedded_lists folder)))]"

text \<open>
  The folderless lists: all lists of the space minus those whose identifier is the
  identifier of a list embedded in one of the folders.
\<close>

definition folderless_lists :: "jsval list \<Rightarrow> jsval list \<Rightarrow> jsval list" where
  "folderless_lists allLists folders =
     filter (\<lambda>l. prop_of l ''id''
                   \<notin> set (concat (map (\<lambda>f. map (\<lambda>e. prop_of e ''id'') (embedded_lists f)) folders)))
       allLists"

definition space_entry :: "client \<Rightarrow> backend \<Rightarrow> jsval \<Rightarrow> jsval" where
  "space_entry cl fetch space =
     JObj (set_prop (set_prop (spread space)
        ''folders'' (JArr (map folder_entry (folders_response cl fetch space))))
        ''lists'' (JArr (folderless_lists (lists_response cl fetch space)
                                          (folders_response cl fetch space))))"

definition team_entry :: "client \<Rightarrow> backend \<Rightarrow> jsval \<Rightarrow> jsval" where
  "team_entry cl fetch team =
     JObj (set_prop (spread team)
        ''spaces'' (JArr (map (space_entry cl fetch) (spaces_response cl fetch team))))"

definition workspace_tree :: "client \<Rightarrow> backend \<Rightarrow> jsval" where
  "workspace_tree cl fetch =
     JObj [(''teams'', JArr (map (team_entry cl fetch) (teams_response cl fetch)))]"

text \<open>
  Responses of the declared shapes: teams, spaces, folders and lists are objects, a
  list's \<^verbatim>\<open>id\<close> is a string, a folder's \<^verbatim>\<open>lists\<close> is absent or an array of lists; the
  teams, spaces and lists fetches succeed with the expected array, the folders fetch
  succeeds with one or fails.
\<close>

definition is_object :: "jsval \<Rightarrow> bool" where
  "is_object v = (case v of JObj ps \<Rightarrow> True | _ \<Rightarrow> False)"

definition list_shaped :: "jsval \<Rightarrow> bool" where
  "list_shaped l = (is_object l \<and> (case prop_of l ''id'' of JStr s \<Rightarrow> True | _ \<Rightarrow> False))"

definition folder_shaped :: "jsval \<Rightarrow> bool" where
  "folder_shaped f =
     (is_object f \<and>
      (case prop_of f ''lists'' of
         JUndefined \<Rightarrow> True
       | JArr ls \<Rightarrow> list_all list_shaped ls
       | _ \<Rightarrow> False))"

definition space_well_formed :: "client \<Rightarrow> backend \<Rightarrow> jsval \<Rightarrow> bool" where
  "space_well_formed cl fetch space =
     (is_object space
      \<and> (case fetched cl fetch (''/space/'' @ js_String (prop_of space ''id'') @ ''/folder'')
                 (Some [(''archived'', JBool False)]) of
           Inl e \<Rightarrow> True
         | Inr r \<Rightarrow> (case prop_of r ''folders'' of
                       JArr fs \<Rightarrow> list_all folder_shaped fs
                     | _ \<Rightarrow> False))
      \<and> (case fetched cl fetch (''/space/'' @ js_String (prop_of space ''id'') @ ''/list'') None of
           Inl e \<Rightarrow> False
         | Inr r \<Rightarrow> (case prop_of r ''lists'' of
                       JArr ls \<Rightarrow> list_all list_shaped ls
                     | _ \<Rightarrow> False)))"

definition team_well_formed :: "client \<Rightarrow> backend \<Rightarrow> jsval \<Rightarrow> bool" where
  "team_well_formed cl fetch team =
     (is_object team
      \<and> (case fetched cl fetch (''/team/'' @ js_String (prop_of team ''id'') @ ''/space'') None of
           Inl e \<Rightarrow> False
         | Inr r \<Rightarrow> (case prop_of r ''spaces'' of
                       JArr ss \<Rightarrow> list_all (space_well_formed cl fetch) ss
                     | _ \<Rightarrow> False)))"

definition responses_well_formed :: "client \<Rightarrow> backend \<Rightarrow> bool" where
  "responses_well_formed cl fetch =
     (case fetched cl fetch ''/team'' None of
        Inl e \<Rightarrow> False
      | Inr r \<Rightarrow> (case prop_of r ''teams'' of
                    JArr ts \<Rightarrow> list_all (team_well_formed cl fetch) ts
                  | _ \<Rightarrow> False))"

text \<open>
  The backend of the example: teams T1 and T2, each with the space S, which has the
  folder F holding the list L1, and whose lists are L1 and L2.
\<close>

definition example_backend :: backend where
  "example_backend req =
     (if req_url req = baseUrl @ ''/team'' then
        Responded 200 ''OK'' (JObj [(''teams'',
          JArr [JObj [(''id'', JStr ''T1''), (''name'', JStr ''Team 1'')],
                JObj [(''id'', JStr ''T2''), (''name'', JStr ''Team 2'')]])])
      else if req_url req = baseUrl @ ''/team/T1/space''
              \<or> req_url req = baseUrl @ ''/team/T2/space'' then
        Responded 200 ''OK'' (JObj [(''spaces'',
          JArr [JObj [(''id'', JStr ''S''), (''name'', JStr ''Space'')]])])
      else if req_url req = baseUrl @ ''/space/S/folder'' then
        Responded 200 ''OK'' (JObj [(''folders'',
          JArr [JObj [(''id'', JStr ''F''), (''name'', JStr ''Folder''),
                      (''orderindex'', JNum 0), (''task_count'', JStr ''3''),
                      (''lists'', JArr [JObj [(''id'', JStr ''L1''), (''name'', JStr ''List 1''),
                                              (''archived'', JBool False)]])]])])
      else if req_url req = baseUrl @ ''/space/S/list'' then
        Responded 200 ''OK'' (JObj [(''lists'',
          JArr [JObj [(''id'', JStr ''L1''), (''name'', JStr ''List 1'')],
                JObj [(''id'', JStr ''L2''), (''name'', JStr ''List 2'')]])])
      else Responded 404 ''Not Found'' (JObj [(''err'', JStr ''Not found'')]))"

text \<open>
  A backend for a space without the folder feature: the folder fetch is answered with 404,
  the list fetch with the list L2.
\<close>

definition no_folders_backend :: backend where
  "no_folders_backend req =
     (if req_url req = baseUrl @ ''/space/S/list'' then
        Responded 200 ''OK'' (JObj [(''lists'',
          JArr [JObj [(''id'', JStr ''L2''), (''name'', JStr ''List 2'')]])])
      else Responded 404 ''Not Found'' (JObj [(''err'', JStr ''Not found'')]))"

text \<open>
  A backend behind a failing gateway: every request is answered with status 502 and an
  HTML page, on which \<^verbatim>\<open>response.json()\<close> rejects.
\<close>

definition bad_gateway_backend :: backend where
  "bad_gateway_backend req =
     JsonRejected 502 ''Bad Gateway'' ''Unexpected token < in JSON at position 0''"

section \<open>Properties\<close>

declare string_of_nat.simps [simp del]

subsection \<open>Asynchronous computations and their traces\<close>

lemma fst_bind_io: "fst (bind_io m f) = (case fst m of Inl e \<Rightarrow> Inl e | Inr x \<Rightarrow> fst (f x))"
  by (cases m) (simp add: bind_io_def split: sum.splits prod.splits)

lemma snd_bind_io:
  "snd (bind_io m f) = (case fst m of Inl e \<Rightarrow> snd m | Inr x \<Rightarrow> snd m @ snd (f x))"
  by (cases m) (simp add: bind_io_def split: sum.splits prod.splits)

lemma snd_request: "snd (request cl fetch m p b q) = [build_request cl m p b q]"
  by (simp add: request_def Let_def)

lemma snd_return_io: "snd (return_io x) = []"
  by (simp add: return_io_def)

lemma snd_call_tool: "snd (call_tool cl fetch name args) = snd (dispatch cl fetch name args)"
  by (simp add: call_tool_def split: prod.splits sum.splits)

lemma snd_bind_request_return:
  "snd (bind_io (request cl fetch m p b q) (\<lambda>x. return_io (g x))) = [build_request cl m p b q]"
  by (simp add: snd_bind_io snd_request snd_return_io split: sum.splits)

subsection \<open>Query parameter serialization\<close>

lemma foldl_snoc_map: "foldl (\<lambda>sp v. sp @ [g v]) sp vs = sp @ map g vs"
  by (induction vs arbitrary: sp) simp_all

lemma append_query_entry: "append_query sp kv = sp @ entry_pairs kv"
  by (cases kv) (simp add: append_query_def entry_pairs_def foldl_snoc_map split: jsval.splits)

lemma foldl_append_query: "foldl append_query sp es = sp @ concat (map entry_pairs es)"
  by (induction es arbitrary: sp) (simp_all add: append_query_entry)

lemma query_pairs_Some: "query_pairs (Some es) = concat (map entry_pairs es)"
  by (simp add: query_pairs_def foldl_append_query)

lemma entry_pairs_no_key:
  assumes "k' = k \<longrightarrow> (\<exists>vs. v = JArr vs) \<or> v = JUndefined \<or> v = JNull"
    and "k \<noteq> k' @ ''[]''"
  shows "k \<notin> fst ` set (entry_pairs (k', v))"
  using assms by (cases v) (auto simp: entry_pairs_def)

lemma query_no_key:
  assumes "\<forall>(k', v)\<in>set es. k' = k \<longrightarrow> (\<exists>vs. v = JArr vs) \<or> v = JUndefined \<or> v = JNull"
    and "\<forall>k'. k \<noteq> k' @ ''[]''"
  shows "k \<notin> fst ` set (concat (map entry_pairs es))"
  using assms
proof (induction es)
  case Nil
  then show ?case by simp
next
  case (Cons e es)
  obtain k' v where e: "e = (k', v)" by (cases e)
  have "k \<notin> fst ` set (entry_pairs (k', v))"
    using Cons.prems e by (intro entry_pairs_no_key) auto
  moreover have "k \<notin> fst ` set (concat (map entry_pairs es))"
    using Cons by simp
  ultimately show ?case using e by (simp add: image_Un)
qed

lemma not_bracket_suffix: "last k \<noteq> CHR '']'' \<Longrightarrow> k \<noteq> k' @ ''[]''"
  by auto

lemma search_list_trace:
  assumes "lookup_prop typedArgs ''scope'' = JStr ''list''"
    and "truthy (lookup_prop typedArgs ''list_id'')"
  shows "snd (call_tool cl fetch ''clickup_search_tasks'' (Some typedArgs)) =
     [build_request cl ''GET''
        (''/team/'' @ js_String (lookup_prop typedArgs ''team_id'') @ ''/task'') JUndefined
        (Some (searchTasks_queryParams (set_prop (pick typedArgs
                   [''query'', ''page'', ''include_closed'', ''assignees'', ''statuses'',
                    ''tags'', ''due_date_gt'', ''due_date_lt''])
                 ''list_ids'' (JArr [lookup_prop typedArgs ''list_id'']))))]"
  using assms
  by (simp add: snd_call_tool dispatch_def tool_search_tasks_def with_args_def search_scope_def
      searchTasks_def snd_bind_request_return)

lemma search_list_query_no_plain_key:
  "''list_ids'' \<notin> fst ` set (query_pairs (Some (searchTasks_queryParams (set_prop (pick a
                   [''query'', ''page'', ''include_closed'', ''assignees'', ''statuses'',
                    ''tags'', ''due_date_gt'', ''due_date_lt'']) ''list_ids'' (JArr [v])))))"
  unfolding query_pairs_Some
  by (rule query_no_key)
     (simp_all add: searchTasks_queryParams_def pick_def Let_def not_bracket_suffix)

lemma search_list_query_bracket_key:
  "(''list_ids[]'', js_String v) \<in> set (query_pairs (Some (searchTasks_queryParams (set_prop (pick a
                   [''query'', ''page'', ''include_closed'', ''assignees'', ''statuses'',
                    ''tags'', ''due_date_gt'', ''due_date_lt'']) ''list_ids'' (JArr [v])))))"
  by (simp add: query_pairs_Some searchTasks_queryParams_def pick_def Let_def
        entry_pairs_def[of "(''list_ids'', _)"])

text \<open>
  C1, as stated, fails: the array \<^verbatim>\<open>assignees = [123, 456]\<close> is sent under the key
  \<^verbatim>\<open>assignees[]\<close>, not \<^verbatim>\<open>assignees\<close>.
\<close>

theorem query_array_plain_key_counterexample:
  "req_query (build_request sample_client ''GET'' ''/list/abc/task'' JUndefined
       (Some [(''assignees'', JArr [JNum 123, JNum 456])]))
     = [(''assignees[]'', ''123''), (''assignees[]'', ''456'')]
   \<and> req_query (build_request sample_client ''GET'' ''/list/abc/task'' JUndefined
       (Some [(''assignees'', JArr [JNum 123, JNum 456])]))
     \<noteq> [(''assignees'', ''123''), (''assignees'', ''456'')]"
  by code_simp

text \<open>
  C1 (amended): the search parameters of a request are, entry by entry in the order of the
  query-parameter object, one pair per array element in array order under the key with
  the bracket suffix \<^verbatim>\<open>[]\<close>, one pair under the plain key for any other value, and
  nothing for \<^verbatim>\<open>undefined\<close> and \<^verbatim>\<open>null\<close>; without a query-parameter object there are
  none. A \<^verbatim>\<open>clickup_search_tasks\<close> call with scope \<^verbatim>\<open>list\<close> and a list id sends one
  request whose search parameters hold \<^verbatim>\<open>list_ids[]\<close> with that id and no parameter
  named \<^verbatim>\<open>list_ids\<close>.
\<close>

theorem query_array_bracket_serialization:
  "req_query (build_request cl method path body None) = []
   \<and> req_query (build_request cl method path body (Some entries))
       = concat (map entry_pairs entries)
   \<and> (lookup_prop typedArgs ''scope'' = JStr ''list'' \<and> truthy (lookup_prop typedArgs ''list_id'')
        \<longrightarrow> (\<exists>req. snd (call_tool cl fetch ''clickup_search_tasks'' (Some typedArgs)) = [req]
               \<and> (''list_ids[]'', js_String (lookup_prop typedArgs ''list_id''))
                   \<in> set (req_query req)
               \<and> ''list_ids'' \<notin> fst ` set (req_query req)))"
proof (intro conjI impI)
  show "req_query (build_request cl method path body None) = []"
    by (simp add: build_request_def query_pairs_def)
  show "req_query (build_request cl method path body (Some entries))
          = concat (map entry_pairs entries)"
    by (simp add: build_request_def query_pairs_Some)
next
  assume h: "lookup_prop typedArgs ''scope'' = JStr ''list''
             \<and> truthy (lookup_prop typedArgs ''list_id'')"
  show "\<exists>req. snd (call_tool cl fetch ''clickup_search_tasks'' (Some typedArgs)) = [req]
               \<and> (''list_ids[]'', js_String (lookup_prop typedArgs ''list_id''))
                   \<in> set (req_query req)
               \<and> ''list_ids'' \<notin> fst ` set (req_query req)"
    using h search_list_query_bracket_key[of "lookup_prop typedArgs ''list_id''" typedArgs]
      search_list_query_no_plain_key[of typedArgs "lookup_prop typedArgs ''list_id''"]
    by (simp add: search_list_trace build_request_def)
qed

text \<open>
  The amended C1 at the README's example, \<^verbatim>\<open>scope: "list"\<close> with
  \<^verbatim>\<open>list_id: "901234567"\<close>, and at a parameter object mixing scalars, an array and
  omitted values.
\<close>

theorem query_array_bracket_serialization_witness:
  "req_query (build_request sample_client ''GET'' ''/list/abc/task'' JUndefined
       (Some [(''name'', JStr ''Test Task''), (''assignees'', JArr [JNum 123, JNum 456]),
              (''due_date_gt'', JUndefined), (''parent'', JNull), (''priority'', JNum 1)]))
     = [(''name'', ''Test Task''), (''assignees[]'', ''123''), (''assignees[]'', ''456''),
        (''priority'', ''1'')]
   \<and> (\<exists>req. snd (call_tool sample_client empty_tasks_backend ''clickup_search_tasks''
            (Some [(''query'', JStr ''bug''), (''scope'', JStr ''list''),
                   (''list_id'', JStr ''901234567''), (''team_id'', JStr ''123456'')])) = [req]
               \<and> (''list_ids[]'', ''901234567'') \<in> set (req_query req)
               \<and> ''list_ids'' \<notin> fst ` set (req_query req))"
proof -
  let ?es = "[(''name'', JStr ''Test Task''), (''assignees'', JArr [JNum 123, JNum 456]),
              (''due_date_gt'', JUndefined), (''parent'', JNull), (''priority'', JNum 1)]"
  let ?a = "[(''query'', JStr ''bug''), (''scope'', JStr ''list''),
             (''list_id'', JStr ''901234567''), (''team_id'', JStr ''123456'')]"
  have e: "concat (map entry_pairs ?es)
             = [(''name'', ''Test Task''), (''assignees[]'', ''123''), (''assignees[]'', ''456''),
                (''priority'', ''1'')]"
    by code_simp
  have h: "lookup_prop ?a ''scope'' = JStr ''list'' \<and> truthy (lookup_prop ?a ''list_id'')"
    by code_simp
  have v: "js_String (lookup_prop ?a ''list_id'') = ''901234567''"
    by code_simp
  show ?thesis
    using query_array_bracket_serialization
            [of sample_client "''GET''" "''/list/abc/task''" JUndefined ?es ?a empty_tasks_backend] h
    unfolding e v by blast
qed

subsection \<open>Failures of the HTTP client\<close>

lemma fst_request: "fst (request cl fetch m p b q) = settle (fetch (build_request cl m p b q))"
  by (simp add: request_def Let_def)

lemma stringify_defined: "v \<noteq> JUndefined \<Longrightarrow> \<exists>s. stringify gap ind v = Some s"
  by (cases v) simp_all

lemma non_json_body_rejects:
  assumes "fetch (build_request cl method path body queryParams)
             = JsonRejected status statusText m"
  shows "fst (request cl fetch method path body queryParams) = Inl (SyntaxError m)"
  using assms by (simp add: fst_request settle_def)

text \<open>
  C7 fails on the code: a response with status 502 whose body is an HTML page makes
  \<^verbatim>\<open>request\<close> reject with the parser's SyntaxError, which holds neither the status code
  nor the status text nor the body, and the tool response shows only that message.
\<close>

theorem non_json_error_body_loses_status:
  "\<not> response_ok 502
   \<and> bad_gateway_backend (build_request sample_client ''GET'' ''/task/abc'' JUndefined None)
       = JsonRejected 502 ''Bad Gateway'' ''Unexpected token < in JSON at position 0''
   \<and> fst (request sample_client bad_gateway_backend ''GET'' ''/task/abc'' JUndefined None)
       = Inl (SyntaxError ''Unexpected token < in JSON at position 0'')
   \<and> fst (call_tool sample_client bad_gateway_backend ''clickup_get_task''
            (Some [(''task_id'', JStr ''abc'')]))
       = \<lparr> content = [\<lparr> content_type = ''text'', content_text =
               Some ''Error: Unexpected token < in JSON at position 0'' \<rparr>],
           isError = Some True \<rparr>"
  by code_simp

text \<open>
  The part of C7 that holds: when a response arrives with a status outside the success
  range 200 to 299 and its body parses as JSON (which \<^verbatim>\<open>response.json()\<close> never
  returns as \<^verbatim>\<open>undefined\<close>), \<^verbatim>\<open>request\<close> rejects with an error whose message is the fixed
  prefix, the decimal status code, a space, the status text, a line break and the whole
  parsed body as rendered by \<^verbatim>\<open>JSON.stringify(body, null, 2)\<close>.
\<close>

theorem api_error_carries_status_and_body:
  assumes "fetch (build_request cl method path body queryParams)
             = Responded status statusText responseData"
    and "\<not> response_ok status"
    and "responseData \<noteq> JUndefined"
  shows "\<exists>bodyText. JSON_stringify2 responseData = Some bodyText
           \<and> fst (request cl fetch method path body queryParams)
               = Inl (Error (''ClickUp API error: '' @ string_of_nat status @ '' '' @ statusText
                             @ newline @ bodyText))"
proof -
  obtain s where s: "JSON_stringify2 responseData = Some s"
    using stringify_defined[OF assms(3)] by (auto simp: JSON_stringify2_def)
  show ?thesis
    using assms(1,2) s by (simp add: fst_request settle_def str_or_undefined_def)
qed

text \<open>
  At the 404 response with body \<^verbatim>\<open>{"err":"Task not found"}\<close>: the message holds the
  status code, the status text and the body.
\<close>

theorem api_error_carries_status_and_body_witness:
  "fst (request sample_client not_found_backend ''GET'' ''/task/abc'' JUndefined None)
     = Inl (Error (''ClickUp API error: 404 Not Found'' @ [CHR 0x0A]
                   @ ''{'' @ [CHR 0x0A] @ ''  '' @ [CHR 0x22] @ ''err'' @ [CHR 0x22] @ '': ''
                   @ [CHR 0x22] @ ''Task not found'' @ [CHR 0x22] @ [CHR 0x0A] @ ''}''))"
proof -
  have a: "not_found_backend (build_request sample_client ''GET'' ''/task/abc'' JUndefined None)
             = Responded 404 ''Not Found'' (JObj [(''err'', JStr ''Task not found'')])"
    by (simp add: not_found_backend_def)
  have b: "\<not> response_ok 404" by (simp add: response_ok_def)
  have c: "JObj [(''err'', JStr ''Task not found'')] \<noteq> JUndefined" by simp
  have d: "JSON_stringify2 (JObj [(''err'', JStr ''Task not found'')])
             = Some (''{'' @ [CHR 0x0A] @ ''  '' @ [CHR 0x22] @ ''err'' @ [CHR 0x22] @ '': ''
                   @ [CHR 0x22] @ ''Task not found'' @ [CHR 0x22] @ [CHR 0x0A] @ ''}'')"
    by code_simp
  have e: "string_of_nat 404 = ''404''" by code_simp
  show ?thesis
    using api_error_carries_status_and_body[of not_found_backend sample_client "''GET''" "''/task/abc''" JUndefined None 404 "''Not Found''" "JObj [(''err'', JStr ''Task not found'')]", OF a b c] unfolding d e by (simp add: newline_def)
qed

subsection \<open>The dispatcher\<close>

lemma stringify_None_iff: "stringify gap ind v = None \<longleftrightarrow> v = JUndefined"
  by (cases v) simp_all

lemma stringify_props_filter:
  "stringify_props gap ind (filter (\<lambda>kv. snd kv \<noteq> JUndefined) ps) = stringify_props gap ind ps"
proof (induction ps)
  case Nil
  then show ?case by simp
next
  case (Cons p ps)
  obtain k v where p: "p = (k, v)" by (cases p)
  show ?case
  proof (cases "v = JUndefined")
    case True
    then show ?thesis using Cons p by simp
  next
    case False
    then obtain s where "stringify gap ind v = Some s"
      using stringify_None_iff[of gap ind v] by auto
    then show ?thesis using Cons p False by simp
  qed
qed

lemma JSON_stringify_filter:
  "JSON_stringify (JObj (filter (\<lambda>kv. snd kv \<noteq> JUndefined) ps)) = JSON_stringify (JObj ps)"
  by (simp add: JSON_stringify_def stringify_props_filter)

lemma call_tool_eq:
  "call_tool cl fetch name args =
     (case fst (dispatch cl fetch name args) of Inl e \<Rightarrow> error_result e | Inr r \<Rightarrow> r,
      snd (dispatch cl fetch name args))"
  by (simp add: call_tool_def split: prod.splits sum.splits)

text \<open>
  C3 fails on the code for scope \<^verbatim>\<open>space\<close>: with a \<^verbatim>\<open>space_id\<close> and no
  \<^verbatim>\<open>team_id\<close> the call is not refused. One GET request is sent, to the path
  \<^verbatim>\<open>/team/undefined/task\<close> with \<^verbatim>\<open>space_ids[]=790\<close>, and its answer is returned as a
  success. The \<^verbatim>\<open>workspace\<close> case tests \<^verbatim>\<open>team_id\<close> before the same call.
\<close>

theorem search_space_without_team_sends_request:
  "isError (fst (call_tool sample_client empty_tasks_backend ''clickup_search_tasks''
      (Some [(''query'', JStr ''bug''), (''scope'', JStr ''space''), (''space_id'', JStr ''790'')])))
     = None
   \<and> map req_method (snd (call_tool sample_client empty_tasks_backend ''clickup_search_tasks''
      (Some [(''query'', JStr ''bug''), (''scope'', JStr ''space''), (''space_id'', JStr ''790'')])))
     = [''GET'']
   \<and> map req_url (snd (call_tool sample_client empty_tasks_backend ''clickup_search_tasks''
      (Some [(''query'', JStr ''bug''), (''scope'', JStr ''space''), (''space_id'', JStr ''790'')])))
     = [''https://api.clickup.com/api/v2/team/undefined/task'']
   \<and> map req_query (snd (call_tool sample_client empty_tasks_backend ''clickup_search_tasks''
      (Some [(''query'', JStr ''bug''), (''scope'', JStr ''space''), (''space_id'', JStr ''790'')])))
     = [[(''query'', ''bug''), (''page'', ''0''), (''include_closed'', ''false''),
         (''space_ids[]'', ''790'')]]"
  by code_simp

text \<open>
  The part of C3 that holds: a \<^verbatim>\<open>clickup_search_tasks\<close> invocation returns the error
  response naming the missing identifier, and sends no request, whenever the identifier
  the code tests for its scope is absent (or otherwise falsy): \<^verbatim>\<open>team_id\<close> for
  \<^verbatim>\<open>workspace\<close>, \<^verbatim>\<open>space_id\<close> for \<^verbatim>\<open>space\<close>, \<^verbatim>\<open>folder_id\<close> for \<^verbatim>\<open>folder\<close>,
  \<^verbatim>\<open>list_id\<close> for \<^verbatim>\<open>list\<close>.
\<close>

theorem search_scope_identifier_validation:
  "(lookup_prop a ''scope'' = JStr ''workspace'' \<and> \<not> truthy (lookup_prop a ''team_id'')
      \<longrightarrow> call_tool cl fetch ''clickup_search_tasks'' (Some a)
            = (\<lparr> content = [\<lparr> content_type = ''text'', content_text =
                    Some ''Error: team_id is required for workspace scope'' \<rparr>],
                 isError = Some True \<rparr>, []))
   \<and> (lookup_prop a ''scope'' = JStr ''space'' \<and> \<not> truthy (lookup_prop a ''space_id'')
      \<longrightarrow> call_tool cl fetch ''clickup_search_tasks'' (Some a)
            = (\<lparr> content = [\<lparr> content_type = ''text'', content_text =
                    Some ''Error: space_id is required for space scope'' \<rparr>],
                 isError = Some True \<rparr>, []))
   \<and> (lookup_prop a ''scope'' = JStr ''folder'' \<and> \<not> truthy (lookup_prop a ''folder_id'')
      \<longrightarrow> call_tool cl fetch ''clickup_search_tasks'' (Some a)
            = (\<lparr> content = [\<lparr> content_type = ''text'', content_text =
                    Some ''Error: folder_id is required for folder scope'' \<rparr>],
                 isError = Some True \<rparr>, []))
   \<and> (lookup_prop a ''scope'' = JStr ''list'' \<and> \<not> truthy (lookup_prop a ''list_id'')
      \<longrightarrow> call_tool cl fetch ''clickup_search_tasks'' (Some a)
            = (\<lparr> content = [\<lparr> content_type = ''text'', content_text =
                    Some ''Error: list_id is required for list scope'' \<rparr>],
                 isError = Some True \<rparr>, []))"
  by (simp add: call_tool_def dispatch_def tool_search_tasks_def with_args_def search_scope_def
      bind_io_def throw_io_def error_result_def)

text \<open>
  At one invocation per scope, each without its identifier; the one for scope
  \<^verbatim>\<open>space\<close> is the spec's example.
\<close>

theorem search_scope_identifier_validation_witness:
  "call_tool sample_client empty_tasks_backend ''clickup_search_tasks''
       (Some [(''query'', JStr ''bug''), (''scope'', JStr ''workspace'')])
     = (\<lparr> content = [\<lparr> content_type = ''text'', content_text =
             Some ''Error: team_id is required for workspace scope'' \<rparr>],
          isError = Some True \<rparr>, [])
   \<and> call_tool sample_client empty_tasks_backend ''clickup_search_tasks''
       (Some [(''query'', JStr ''bug''), (''scope'', JStr ''space''), (''team_id'', JStr ''123456'')])
     = (\<lparr> content = [\<lparr> content_type = ''text'', content_text =
             Some ''Error: space_id is required for space scope'' \<rparr>],
          isError = Some True \<rparr>, [])
   \<and> call_tool sample_client empty_tasks_backend ''clickup_search_tasks''
       (Some [(''query'', JStr ''bug''), (''scope'', JStr ''folder''), (''team_id'', JStr ''123456'')])
     = (\<lparr> content = [\<lparr> content_type = ''text'', content_text =
             Some ''Error: folder_id is required for folder scope'' \<rparr>],
          isError = Some True \<rparr>, [])
   \<and> call_tool sample_client empty_tasks_backend ''clickup_search_tasks''
       (Some [(''query'', JStr ''bug''), (''scope'', JStr ''list''), (''team_id'', JStr ''123456'')])
     = (\<lparr> content = [\<lparr> content_type = ''text'', content_text =
             Some ''Error: list_id is required for list scope'' \<rparr>],
          isError = Some True \<rparr>, [])"
proof -
  let ?w = "[(''query'', JStr ''bug''), (''scope'', JStr ''workspace'')]"
  let ?s = "[(''query'', JStr ''bug''), (''scope'', JStr ''space''), (''team_id'', JStr ''123456'')]"
  let ?f = "[(''query'', JStr ''bug''), (''scope'', JStr ''folder''), (''team_id'', JStr ''123456'')]"
  let ?l = "[(''query'', JStr ''bug''), (''scope'', JStr ''list''), (''team_id'', JStr ''123456'')]"
  have w: "lookup_prop ?w ''scope'' = JStr ''workspace'' \<and> \<not> truthy (lookup_prop ?w ''team_id'')"
    by code_simp
  have s: "lookup_prop ?s ''scope'' = JStr ''space'' \<and> \<not> truthy (lookup_prop ?s ''space_id'')"
    by code_simp
  have f: "lookup_prop ?f ''scope'' = JStr ''folder'' \<and> \<not> truthy (lookup_prop ?f ''folder_id'')"
    by code_simp
  have l: "lookup_prop ?l ''scope'' = JStr ''list'' \<and> \<not> truthy (lookup_prop ?l ''list_id'')"
    by code_simp
  note r1 = search_scope_identifier_validation[of ?w sample_client empty_tasks_backend, THEN conjunct1, THEN mp, OF w]
  note r2 = search_scope_identifier_validation[of ?s sample_client empty_tasks_backend, THEN conjunct2, THEN conjunct1,
               THEN mp, OF s]
  note r3 = search_scope_identifier_validation[of ?f sample_client empty_tasks_backend, THEN conjunct2, THEN conjunct2,
               THEN conjunct1, THEN mp, OF f]
  note r4 = search_scope_identifier_validation[of ?l sample_client empty_tasks_backend, THEN conjunct2, THEN conjunct2,
               THEN conjunct2, THEN mp, OF l]
  show ?thesis
    by (rule conjI[OF r1 conjI[OF r2 conjI[OF r3 r4]]])
qed

lemma search_narrow_trace:
  shows "bind_io (searchTasks cl fetch JUndefined ps) (\<lambda>response. return_io (text_result (JSON_stringify2 response)))
         = (case settle (fetch (build_request cl ''GET'' ''/team/undefined/task'' JUndefined (Some (searchTasks_queryParams ps)))) of
              Inl e \<Rightarrow> Inl e | Inr response \<Rightarrow> Inr (text_result (JSON_stringify2 response)),
            [build_request cl ''GET'' ''/team/undefined/task'' JUndefined (Some (searchTasks_queryParams ps))])"
  by (simp add: searchTasks_def request_def Let_def bind_io_def return_io_def split: sum.splits)

text \<open>
  C10: for scope \<^verbatim>\<open>space\<close>, \<^verbatim>\<open>folder\<close> or \<^verbatim>\<open>list\<close> with its own identifier
  present and \<^verbatim>\<open>team_id\<close> absent, no validation error is raised: exactly one request is
  sent, a GET whose path is \<^verbatim>\<open>/team/undefined/task\<close>, and the response returned is
  whatever that request yields.
\<close>

theorem search_narrow_scope_team_unchecked:
  assumes "lookup_prop a ''team_id'' = JUndefined"
    and "(lookup_prop a ''scope'' = JStr ''space'' \<and> truthy (lookup_prop a ''space_id''))
         \<or> (lookup_prop a ''scope'' = JStr ''folder'' \<and> truthy (lookup_prop a ''folder_id''))
         \<or> (lookup_prop a ''scope'' = JStr ''list'' \<and> truthy (lookup_prop a ''list_id''))"
  shows "\<exists>req. snd (call_tool cl fetch ''clickup_search_tasks'' (Some a)) = [req]
           \<and> req_method req = ''GET''
           \<and> req_url req = ''https://api.clickup.com/api/v2/team/undefined/task''
           \<and> fst (call_tool cl fetch ''clickup_search_tasks'' (Some a))
               = (case settle (fetch req) of
                    Inl e \<Rightarrow> error_result e
                  | Inr response \<Rightarrow> text_result (JSON_stringify2 response))"
proof -
  let ?base = "pick a [''query'', ''page'', ''include_closed'', ''assignees'', ''statuses'',
                    ''tags'', ''due_date_gt'', ''due_date_lt'']"
  obtain ps where d: "dispatch cl fetch ''clickup_search_tasks'' (Some a)
      = bind_io (searchTasks cl fetch JUndefined ps)
          (\<lambda>response. return_io (text_result (JSON_stringify2 response)))"
    using assms
    by (auto simp: dispatch_def tool_search_tasks_def with_args_def search_scope_def)
  let ?req = "build_request cl ''GET'' ''/team/undefined/task'' JUndefined (Some (searchTasks_queryParams ps))"
  have "snd (call_tool cl fetch ''clickup_search_tasks'' (Some a)) = [?req]"
    by (simp add: call_tool_eq d search_narrow_trace)
  moreover have "req_method ?req = ''GET''"
    by (simp add: build_request_def)
  moreover have "req_url ?req = ''https://api.clickup.com/api/v2/team/undefined/task''"
    by (simp add: build_request_def baseUrl_def)
  moreover have "fst (call_tool cl fetch ''clickup_search_tasks'' (Some a))
               = (case settle (fetch ?req) of
                    Inl e \<Rightarrow> error_result e
                  | Inr response \<Rightarrow> text_result (JSON_stringify2 response))"
    by (simp add: call_tool_eq d search_narrow_trace split: sum.splits)
  ultimately show ?thesis by blast
qed

text \<open>C10 at a list-scope search that gives no \<^verbatim>\<open>team_id\<close>.\<close>

theorem search_narrow_scope_team_unchecked_witness:
  "\<exists>req. snd (call_tool sample_client empty_tasks_backend ''clickup_search_tasks''
              (Some [(''query'', JStr ''bug''), (''scope'', JStr ''list''),
                     (''list_id'', JStr ''901234567'')])) = [req]
           \<and> req_method req = ''GET''
           \<and> req_url req = ''https://api.clickup.com/api/v2/team/undefined/task''
           \<and> fst (call_tool sample_client empty_tasks_backend ''clickup_search_tasks''
              (Some [(''query'', JStr ''bug''), (''scope'', JStr ''list''),
                     (''list_id'', JStr ''901234567'')]))
               = (case settle (empty_tasks_backend req) of
                    Inl e \<Rightarrow> error_result e
                  | Inr response \<Rightarrow> text_result (JSON_stringify2 response))"
proof -
  let ?a = "[(''query'', JStr ''bug''), (''scope'', JStr ''list''),
             (''list_id'', JStr ''901234567'')]"
  have h1: "lookup_prop ?a ''team_id'' = JUndefined" by code_simp
  have h2: "(lookup_prop ?a ''scope'' = JStr ''space'' \<and> truthy (lookup_prop ?a ''space_id''))
         \<or> (lookup_prop ?a ''scope'' = JStr ''folder'' \<and> truthy (lookup_prop ?a ''folder_id''))
         \<or> (lookup_prop ?a ''scope'' = JStr ''list'' \<and> truthy (lookup_prop ?a ''list_id''))"
    by code_simp
  show ?thesis
    by (rule search_narrow_scope_team_unchecked[of ?a sample_client empty_tasks_backend, OF h1 h2])
qed

text \<open>
  C6, as stated, fails: an invocation with only a \<^verbatim>\<open>task_id\<close> sends a request whose
  body is \<^verbatim>\<open>{}\<close>, with both direction fields absent.
\<close>

theorem add_dependency_neither_direction_counterexample:
  "map req_body (snd (call_tool sample_client empty_tasks_backend ''clickup_add_dependency''
      (Some [(''task_id'', JStr ''abc'')]))) = [Some ''{}'']"
  by code_simp

text \<open>
  C6 (amended): a \<^verbatim>\<open>clickup_add_dependency\<close> invocation sends one POST to
  \<^verbatim>\<open>/task/{task_id}/dependency\<close> whose body is the JSON of the object holding exactly
  the direction fields the caller supplied, \<^verbatim>\<open>depends_on\<close> and \<^verbatim>\<open>dependency_of\<close> in
  this order; nothing is validated, and with neither field supplied the body is \<^verbatim>\<open>{}\<close>.
\<close>

theorem add_dependency_body_as_supplied:
  "\<exists>req. snd (call_tool cl fetch ''clickup_add_dependency'' (Some a)) = [req]
      \<and> req_method req = ''POST''
      \<and> req_url req = baseUrl @ ''/task/'' @ js_String (lookup_prop a ''task_id'') @ ''/dependency''
      \<and> req_body req = JSON_stringify (JObj (filter (\<lambda>kv. snd kv \<noteq> JUndefined)
           [(''depends_on'', lookup_prop a ''depends_on''),
            (''dependency_of'', lookup_prop a ''dependency_of'')]))
      \<and> (lookup_prop a ''depends_on'' = JUndefined \<and> lookup_prop a ''dependency_of'' = JUndefined
            \<longrightarrow> req_body req = Some ''{}'')"
  unfolding JSON_stringify_filter
  by (simp add: snd_call_tool dispatch_def tool_add_dependency_def with_args_def addDependency_def
      snd_bind_request_return build_request_def pick_def JSON_stringify_def)

text \<open>The amended C6 at an invocation that supplies neither direction field.\<close>

theorem add_dependency_body_as_supplied_witness:
  "\<exists>req. snd (call_tool sample_client empty_tasks_backend ''clickup_add_dependency''
             (Some [(''task_id'', JStr ''abc'')])) = [req]
      \<and> req_method req = ''POST''
      \<and> req_url req = ''https://api.clickup.com/api/v2/task/abc/dependency''
      \<and> req_body req = Some ''{}''"
proof -
  let ?a = "[(''task_id'', JStr ''abc'')]"
  have h: "lookup_prop ?a ''depends_on'' = JUndefined \<and> lookup_prop ?a ''dependency_of'' = JUndefined"
    by code_simp
  have u: "baseUrl @ ''/task/'' @ js_String (lookup_prop ?a ''task_id'') @ ''/dependency''
             = ''https://api.clickup.com/api/v2/task/abc/dependency''"
    by code_simp
  from add_dependency_body_as_supplied[of sample_client empty_tasks_backend ?a]
  obtain req where a: "snd (call_tool sample_client empty_tasks_backend ''clickup_add_dependency''
             (Some ?a)) = [req]"
    and b: "req_method req = ''POST''"
    and c: "req_url req = baseUrl @ ''/task/'' @ js_String (lookup_prop ?a ''task_id'') @ ''/dependency''"
    and e: "lookup_prop ?a ''depends_on'' = JUndefined \<and> lookup_prop ?a ''dependency_of'' = JUndefined
            \<longrightarrow> req_body req = Some ''{}''"
    by (elim exE conjE)
  from e h have e': "req_body req = Some ''{}''" by (rule mp)
  from c have c': "req_url req = ''https://api.clickup.com/api/v2/task/abc/dependency''"
    unfolding u .
  show ?thesis
    by (intro exI[of _ req] conjI a b c' e')
qed

subsection \<open>Defaults of the task queries\<close>

lemma map_of_set_prop: "map_of (set_prop ps k v) = (map_of ps)(k \<mapsto> v)"
  by (induction ps) (auto simp: fun_eq_iff)

lemma keys_set_prop: "fst ` set (set_prop ps k v) = insert k (fst ` set ps)"
  by (induction ps k v rule: set_prop.induct) auto

lemma distinct_set_prop:
  "distinct (map fst ps) \<Longrightarrow> distinct (map fst (set_prop ps k v))"
proof (induction ps)
  case Nil
  then show ?case by simp
next
  case (Cons p ps)
  then show ?case
    using keys_set_prop[of ps k v] by (cases p) (auto simp: image_iff)
qed

lemma lookup_set_prop:
  "lookup_prop (set_prop ps k v) k' = (if k' = k then v else lookup_prop ps k')"
  by (simp add: lookup_prop_def map_of_set_prop)

lemma query_key_absent:
  assumes "k \<notin> fst ` set es" and "\<forall>k'. k \<noteq> k' @ ''[]''"
  shows "filter (\<lambda>p. fst p = k) (concat (map entry_pairs es)) = []"
proof -
  have "k \<notin> fst ` set (concat (map entry_pairs es))"
    using assms by (intro query_no_key) force+
  then show ?thesis
    by (auto simp: filter_empty_conv image_iff)
qed

lemma query_single_key:
  assumes "distinct (map fst es)" and "map_of es k = Some v"
    and "v \<noteq> JUndefined" and "v \<noteq> JNull" and "\<forall>vs. v \<noteq> JArr vs"
    and "\<forall>k'. k \<noteq> k' @ ''[]''"
  shows "filter (\<lambda>p. fst p = k) (concat (map entry_pairs es)) = [(k, js_String v)]"
  using assms(1,2)
proof (induction es)
  case Nil
  then show ?case by simp
next
  case (Cons e es)
  obtain k' v' where e: "e = (k', v')" by (cases e)
  show ?case
  proof (cases "k' = k")
    case True
    then have v': "v' = v" using Cons.prems e by simp
    have "k \<notin> fst ` set es" using Cons.prems e True by (auto simp: image_iff)
    then have rest: "filter (\<lambda>p. fst p = k) (concat (map entry_pairs es)) = []"
      using assms(6) by (rule query_key_absent)
    have "entry_pairs (k, v) = [(k, js_String v)]"
      using assms(3,4,5) by (cases v) (simp_all add: entry_pairs_def)
    then show ?thesis using e True v' rest by simp
  next
    case False
    have "k \<notin> fst ` set (entry_pairs (k', v'))"
      using False assms(6) by (intro entry_pairs_no_key) auto
    then have "filter (\<lambda>p. fst p = k) (entry_pairs (k', v')) = []"
      by (auto simp: filter_empty_conv image_iff)
    moreover have "filter (\<lambda>p. fst p = k) (concat (map entry_pairs es)) = [(k, js_String v)]"
      using Cons e False by simp
    ultimately show ?thesis using e by simp
  qed
qed

lemma string_of_nat_0: "string_of_nat 0 = ''0''"
  by (simp add: string_of_nat.simps digit_char_def)

lemma number_to_string_0: "number_to_string 0 = ''0''"
  by (simp add: number_to_string_def string_of_nat_0)

lemma listTasks_queryParams_props:
  assumes "distinct (map fst ps)"
  shows "distinct (map fst (listTasks_queryParams (Some ps)))"
    and "map_of (listTasks_queryParams (Some ps)) ''archived''
           = Some (nullish_or (lookup_prop ps ''archived'') (JBool False))"
    and "map_of (listTasks_queryParams (Some ps)) ''page''
           = Some (nullish_or (lookup_prop ps ''page'') (JNum 0))"
    and "map_of (listTasks_queryParams (Some ps)) ''include_closed''
           = Some (nullish_or (lookup_prop ps ''include_closed'') (JBool False))"
  using assms by (simp_all add: listTasks_queryParams_def Let_def distinct_set_prop map_of_set_prop)

lemma searchTasks_queryParams_props:
  assumes "distinct (map fst ps)"
  shows "distinct (map fst (searchTasks_queryParams ps))"
    and "map_of (searchTasks_queryParams ps) ''page''
           = Some (nullish_or (lookup_prop ps ''page'') (JNum 0))"
    and "map_of (searchTasks_queryParams ps) ''include_closed''
           = Some (nullish_or (lookup_prop ps ''include_closed'') (JBool False))"
  using assms by (simp_all add: searchTasks_queryParams_def Let_def distinct_set_prop map_of_set_prop)

lemma default_false_entry:
  assumes "distinct (map fst es)" and "map_of es k = Some (nullish_or v (JBool False))"
    and "v = JUndefined \<or> v = JNull" and "\<forall>k'. k \<noteq> k' @ ''[]''"
  shows "filter (\<lambda>p. fst p = k) (query_pairs (Some es)) = [(k, ''false'')]"
proof -
  have "map_of es k = Some (JBool False)" using assms(2,3) by (auto simp: nullish_or_def)
  from query_single_key[OF assms(1) this _ _ _ assms(4)] show ?thesis
    by (simp add: query_pairs_Some)
qed

lemma default_zero_entry:
  assumes "distinct (map fst es)" and "map_of es k = Some (nullish_or v (JNum 0))"
    and "v = JUndefined \<or> v = JNull" and "\<forall>k'. k \<noteq> k' @ ''[]''"
  shows "filter (\<lambda>p. fst p = k) (query_pairs (Some es)) = [(k, ''0'')]"
proof -
  have "map_of es k = Some (JNum 0)" using assms(2,3) by (auto simp: nullish_or_def)
  from query_single_key[OF assms(1) this _ _ _ assms(4)] show ?thesis
    by (simp add: query_pairs_Some number_to_string_0)
qed

lemma default_keys_no_bracket:
  "\<forall>k'. ''archived'' \<noteq> k' @ ''[]''" "\<forall>k'. ''page'' \<noteq> k' @ ''[]''"
  "\<forall>k'. ''include_closed'' \<noteq> k' @ ''[]''"
  by (intro allI not_bracket_suffix; simp)+

lemma searchTasks_no_archived:
  assumes "''archived'' \<notin> fst ` set ps"
  shows "''archived'' \<notin> fst ` set (query_pairs (Some (searchTasks_queryParams ps)))"
proof -
  have "''archived'' \<notin> fst ` set (searchTasks_queryParams ps)"
    using assms by (simp add: searchTasks_queryParams_def Let_def keys_set_prop)
  then show ?thesis
    unfolding query_pairs_Some
    using default_keys_no_bracket(1) by (intro query_no_key) force+
qed

text \<open>
  C5, as stated, fails for \<^verbatim>\<open>searchTasks\<close>: with \<^verbatim>\<open>archived\<close> unset it sends the
  defaults of \<^verbatim>\<open>page\<close> and \<^verbatim>\<open>include_closed\<close> and no \<^verbatim>\<open>archived\<close> parameter.
\<close>

theorem search_tasks_sends_no_archived_counterexample:
  "map req_query (snd (searchTasks sample_client empty_tasks_backend (JStr ''123456'')
                         [(''query'', JStr ''bug'')]))
     = [[(''query'', ''bug''), (''page'', ''0''), (''include_closed'', ''false'')]]"
  by code_simp

text \<open>
  C5 (amended): \<^verbatim>\<open>listTasks\<close> sends \<^verbatim>\<open>archived=false\<close>, \<^verbatim>\<open>page=0\<close> and
  \<^verbatim>\<open>include_closed=false\<close>, each exactly once, for each of these parameters the caller
  left unset (\<^verbatim>\<open>undefined\<close>, or \<^verbatim>\<open>null\<close>), and all three when the parameter object
  is omitted; \<^verbatim>\<open>searchTasks\<close> does the same for \<^verbatim>\<open>page\<close> and \<^verbatim>\<open>include_closed\<close>
  only: it has no \<^verbatim>\<open>archived\<close> parameter and sends none unless its parameter object
  holds one. The parameter object is a JavaScript object: its keys are distinct.
\<close>

theorem task_query_defaults:
  assumes "distinct (map fst ps)"
  shows "(\<exists>req. snd (listTasks cl fetch listId (Some ps)) = [req]
           \<and> (lookup_prop ps ''archived'' = JUndefined \<or> lookup_prop ps ''archived'' = JNull
                \<longrightarrow> filter (\<lambda>p. fst p = ''archived'') (req_query req) = [(''archived'', ''false'')])
           \<and> (lookup_prop ps ''page'' = JUndefined \<or> lookup_prop ps ''page'' = JNull
                \<longrightarrow> filter (\<lambda>p. fst p = ''page'') (req_query req) = [(''page'', ''0'')])
           \<and> (lookup_prop ps ''include_closed'' = JUndefined \<or> lookup_prop ps ''include_closed'' = JNull
                \<longrightarrow> filter (\<lambda>p. fst p = ''include_closed'') (req_query req)
                      = [(''include_closed'', ''false'')]))
       \<and> (\<exists>req. snd (listTasks cl fetch listId None) = [req]
           \<and> req_query req = [(''archived'', ''false''), (''page'', ''0''), (''include_closed'', ''false'')])
       \<and> (\<exists>req. snd (searchTasks cl fetch teamId ps) = [req]
           \<and> (lookup_prop ps ''page'' = JUndefined \<or> lookup_prop ps ''page'' = JNull
                \<longrightarrow> filter (\<lambda>p. fst p = ''page'') (req_query req) = [(''page'', ''0'')])
           \<and> (lookup_prop ps ''include_closed'' = JUndefined \<or> lookup_prop ps ''include_closed'' = JNull
                \<longrightarrow> filter (\<lambda>p. fst p = ''include_closed'') (req_query req)
                      = [(''include_closed'', ''false'')])
           \<and> (''archived'' \<notin> fst ` set ps \<longrightarrow> ''archived'' \<notin> fst ` set (req_query req)))"
proof (intro conjI)
  note L = listTasks_queryParams_props[OF assms]
  note a = default_false_entry[OF L(1,2) _ default_keys_no_bracket(1)]
  note p = default_zero_entry[OF L(1,3) _ default_keys_no_bracket(2)]
  note c = default_false_entry[OF L(1,4) _ default_keys_no_bracket(3)]
  show "\<exists>req. snd (listTasks cl fetch listId (Some ps)) = [req]
           \<and> (lookup_prop ps ''archived'' = JUndefined \<or> lookup_prop ps ''archived'' = JNull
                \<longrightarrow> filter (\<lambda>p. fst p = ''archived'') (req_query req) = [(''archived'', ''false'')])
           \<and> (lookup_prop ps ''page'' = JUndefined \<or> lookup_prop ps ''page'' = JNull
                \<longrightarrow> filter (\<lambda>p. fst p = ''page'') (req_query req) = [(''page'', ''0'')])
           \<and> (lookup_prop ps ''include_closed'' = JUndefined \<or> lookup_prop ps ''include_closed'' = JNull
                \<longrightarrow> filter (\<lambda>p. fst p = ''include_closed'') (req_query req)
                      = [(''include_closed'', ''false'')])"
    using a p c by (simp add: listTasks_def snd_request build_request_def)
next
  show "\<exists>req. snd (listTasks cl fetch listId None) = [req]
           \<and> req_query req = [(''archived'', ''false''), (''page'', ''0''), (''include_closed'', ''false'')]"
    by (simp add: listTasks_def snd_request build_request_def query_pairs_Some
        listTasks_queryParams_def lookup_prop_def nullish_or_def entry_pairs_def number_to_string_0)
next
  note S = searchTasks_queryParams_props[OF assms]
  note p = default_zero_entry[OF S(1,2) _ default_keys_no_bracket(2)]
  note c = default_false_entry[OF S(1,3) _ default_keys_no_bracket(3)]
  show "\<exists>req. snd (searchTasks cl fetch teamId ps) = [req]
           \<and> (lookup_prop ps ''page'' = JUndefined \<or> lookup_prop ps ''page'' = JNull
                \<longrightarrow> filter (\<lambda>p. fst p = ''page'') (req_query req) = [(''page'', ''0'')])
           \<and> (lookup_prop ps ''include_closed'' = JUndefined \<or> lookup_prop ps ''include_closed'' = JNull
                \<longrightarrow> filter (\<lambda>p. fst p = ''include_closed'') (req_query req)
                      = [(''include_closed'', ''false'')])
           \<and> (''archived'' \<notin> fst ` set ps \<longrightarrow> ''archived'' \<notin> fst ` set (req_query req))"
    using p c searchTasks_no_archived[of ps]
    by (simp add: searchTasks_def snd_request build_request_def)
qed

text \<open>
  The amended C5 at the parameter object the dispatcher builds when the caller gives only
  \<^verbatim>\<open>tags\<close>, for \<^verbatim>\<open>listTasks\<close>, and at a search for a query text alone.
\<close>

theorem task_query_defaults_witness:
  "(\<exists>req. snd (listTasks sample_client empty_tasks_backend (JStr ''901'')
               (Some [(''page'', JUndefined), (''archived'', JUndefined),
                      (''include_closed'', JUndefined), (''tags'', JArr [JStr ''bug''])])) = [req]
           \<and> filter (\<lambda>p. fst p = ''archived'') (req_query req) = [(''archived'', ''false'')]
           \<and> filter (\<lambda>p. fst p = ''page'') (req_query req) = [(''page'', ''0'')]
           \<and> filter (\<lambda>p. fst p = ''include_closed'') (req_query req)
                      = [(''include_closed'', ''false'')])
   \<and> (\<exists>req. snd (searchTasks sample_client empty_tasks_backend (JStr ''123456'')
               [(''query'', JStr ''bug'')]) = [req]
           \<and> filter (\<lambda>p. fst p = ''page'') (req_query req) = [(''page'', ''0'')]
           \<and> filter (\<lambda>p. fst p = ''include_closed'') (req_query req)
                      = [(''include_closed'', ''false'')]
           \<and> ''archived'' \<notin> fst ` set (req_query req))"
proof -
  let ?ps = "[(''page'', JUndefined), (''archived'', JUndefined),
              (''include_closed'', JUndefined), (''tags'', JArr [JStr ''bug''])]"
  let ?qs = "[(''query'', JStr ''bug'')]"
  have d: "distinct (map fst ?ps)" by simp
  have a: "lookup_prop ?ps ''archived'' = JUndefined \<or> lookup_prop ?ps ''archived'' = JNull"
    by (simp add: lookup_prop_def)
  have p: "lookup_prop ?ps ''page'' = JUndefined \<or> lookup_prop ?ps ''page'' = JNull"
    by (simp add: lookup_prop_def)
  have c: "lookup_prop ?ps ''include_closed'' = JUndefined
           \<or> lookup_prop ?ps ''include_closed'' = JNull"
    by (simp add: lookup_prop_def)
  have d': "distinct (map fst ?qs)" by simp
  have p': "lookup_prop ?qs ''page'' = JUndefined \<or> lookup_prop ?qs ''page'' = JNull"
    by (simp add: lookup_prop_def)
  have c': "lookup_prop ?qs ''include_closed'' = JUndefined
           \<or> lookup_prop ?qs ''include_closed'' = JNull"
    by (simp add: lookup_prop_def)
  have n': "''archived'' \<notin> fst ` set ?qs" by simp
  note t = task_query_defaults[OF d, of sample_client empty_tasks_backend "JStr ''901''"]
  note t' = task_query_defaults[OF d', of sample_client empty_tasks_backend _ "JStr ''123456''"]
  from t[THEN conjunct1]
  obtain r1 where r1: "snd (listTasks sample_client empty_tasks_backend (JStr ''901'') (Some ?ps)) = [r1]"
    and a1: "lookup_prop ?ps ''archived'' = JUndefined \<or> lookup_prop ?ps ''archived'' = JNull
                \<longrightarrow> filter (\<lambda>p. fst p = ''archived'') (req_query r1) = [(''archived'', ''false'')]"
    and p1: "lookup_prop ?ps ''page'' = JUndefined \<or> lookup_prop ?ps ''page'' = JNull
                \<longrightarrow> filter (\<lambda>p. fst p = ''page'') (req_query r1) = [(''page'', ''0'')]"
    and ic1: "lookup_prop ?ps ''include_closed'' = JUndefined \<or> lookup_prop ?ps ''include_closed'' = JNull
                \<longrightarrow> filter (\<lambda>p. fst p = ''include_closed'') (req_query r1)
                      = [(''include_closed'', ''false'')]"
    by (elim exE conjE)
  from t'[THEN conjunct2, THEN conjunct2]
  obtain r2 where r2: "snd (searchTasks sample_client empty_tasks_backend (JStr ''123456'') ?qs) = [r2]"
    and p2: "lookup_prop ?qs ''page'' = JUndefined \<or> lookup_prop ?qs ''page'' = JNull
                \<longrightarrow> filter (\<lambda>p. fst p = ''page'') (req_query r2) = [(''page'', ''0'')]"
    and ic2: "lookup_prop ?qs ''include_closed'' = JUndefined \<or> lookup_prop ?qs ''include_closed'' = JNull
                \<longrightarrow> filter (\<lambda>p. fst p = ''include_closed'') (req_query r2)
                      = [(''include_closed'', ''false'')]"
    and n2: "''archived'' \<notin> fst ` set ?qs \<longrightarrow> ''archived'' \<notin> fst ` set (req_query r2)"
    by (elim exE conjE)
  show ?thesis
    by (intro conjI exI[of _ r1] exI[of _ r2] r1 r2 a1[THEN mp, OF a] p1[THEN mp, OF p]
          ic1[THEN mp, OF c] p2[THEN mp, OF p'] ic2[THEN mp, OF c'] n2[THEN mp, OF n'])
qed

subsection \<open>The partial update of a task\<close>

lemma map_of_copy_defined_fold:
  "map_of (foldl (copy_defined a) u ks) k =
     (if k \<in> set ks \<and> lookup_prop a k \<noteq> JUndefined then Some (lookup_prop a k) else map_of u k)"
  by (induction ks arbitrary: u) (auto simp: copy_defined_def map_of_set_prop)

lemma keys_copy_defined_fold:
  "fst ` set (foldl (copy_defined a) u ks) \<subseteq> fst ` set u \<union> set ks"
proof (induction ks arbitrary: u)
  case Nil
  then show ?case by simp
next
  case (Cons k ks)
  have "fst ` set (copy_defined a u k) \<subseteq> insert k (fst ` set u)"
    by (auto simp: copy_defined_def keys_set_prop)
  with Cons[of "copy_defined a u k"] show ?case by auto
qed

lemma distinct_copy_defined_fold:
  "distinct (map fst u) \<Longrightarrow> distinct (map fst (foldl (copy_defined a) u ks))"
  by (induction ks arbitrary: u) (simp_all add: copy_defined_def distinct_set_prop)

lemma values_set_prop: "snd ` set (set_prop ps k v) \<subseteq> insert v (snd ` set ps)"
  by (induction ps k v rule: set_prop.induct) auto

lemma values_copy_defined_fold:
  "JUndefined \<notin> snd ` set u \<Longrightarrow> JUndefined \<notin> snd ` set (foldl (copy_defined a) u ks)"
proof (induction ks arbitrary: u)
  case Nil
  then show ?case by simp
next
  case (Cons k ks)
  have "JUndefined \<notin> snd ` set (copy_defined a u k)"
    using Cons.prems values_set_prop[of u k "lookup_prop a k"]
    by (auto simp: copy_defined_def)
  then show ?case using Cons.IH by simp
qed

lemma add_rem_arrays:
  assumes "add = JUndefined \<or> (\<exists>xs. add = JArr xs)"
    and "rem = JUndefined \<or> (\<exists>xs. rem = JArr xs)"
  shows "add_rem u k add rem =
     (if add = JUndefined \<and> rem = JUndefined then u
      else set_prop u k (JObj (supplied [(''add'', add), (''rem'', rem)])))"
  using assms by (auto simp: add_rem_def supplied_def Let_def)

lemma values_set_prop_defined:
  "JUndefined \<notin> snd ` set ps \<Longrightarrow> v \<noteq> JUndefined \<Longrightarrow> JUndefined \<notin> snd ` set (set_prop ps k v)"
  by (induction ps k v rule: set_prop.induct) auto

lemma update_task_updates_arrays:
  assumes "\<forall>k \<in> {''assignees_add'', ''assignees_rem'', ''tags_add'', ''tags_rem''}.
             lookup_prop a k = JUndefined \<or> (\<exists>xs. lookup_prop a k = JArr xs)"
  shows "update_task_updates a =
     (let u0 = foldl (copy_defined a) [] update_fields;
          u1 = (if lookup_prop a ''assignees_add'' = JUndefined
                   \<and> lookup_prop a ''assignees_rem'' = JUndefined then u0
                else set_prop u0 ''assignees''
                       (JObj (supplied [(''add'', lookup_prop a ''assignees_add''),
                                        (''rem'', lookup_prop a ''assignees_rem'')])));
          u2 = (if lookup_prop a ''tags_add'' = JUndefined
                   \<and> lookup_prop a ''tags_rem'' = JUndefined then u1
                else set_prop u1 ''tags''
                       (JObj (supplied [(''add'', lookup_prop a ''tags_add''),
                                        (''rem'', lookup_prop a ''tags_rem'')])))
      in u2)"
proof -
  have aa: "lookup_prop a ''assignees_add'' = JUndefined \<or> (\<exists>xs. lookup_prop a ''assignees_add'' = JArr xs)"
    and ar: "lookup_prop a ''assignees_rem'' = JUndefined \<or> (\<exists>xs. lookup_prop a ''assignees_rem'' = JArr xs)"
    and ta: "lookup_prop a ''tags_add'' = JUndefined \<or> (\<exists>xs. lookup_prop a ''tags_add'' = JArr xs)"
    and tr: "lookup_prop a ''tags_rem'' = JUndefined \<or> (\<exists>xs. lookup_prop a ''tags_rem'' = JArr xs)"
    using assms by simp_all
  show ?thesis
    unfolding update_task_updates_def Let_def add_rem_arrays[OF aa ar] add_rem_arrays[OF ta tr] ..
qed

lemma update_fields_not_special:
  "''assignees'' \<notin> set update_fields" "''tags'' \<notin> set update_fields"
  by (simp_all add: update_fields_def)

lemma scalars_map_of:
  "map_of (foldl (copy_defined a) [] update_fields) k
     = (if k \<in> set update_fields \<and> lookup_prop a k \<noteq> JUndefined
        then Some (lookup_prop a k) else None)"
  by (simp add: map_of_copy_defined_fold)

lemma scalars_keys: "fst ` set (foldl (copy_defined a) [] update_fields) \<subseteq> set update_fields"
  using keys_copy_defined_fold[of a "[]" update_fields] by simp

lemma scalars_distinct: "distinct (map fst (foldl (copy_defined a) [] update_fields))"
  by (rule distinct_copy_defined_fold) simp

lemma scalars_defined: "JUndefined \<notin> snd ` set (foldl (copy_defined a) [] update_fields)"
  by (rule values_copy_defined_fold) simp

lemma updates_scalar:
  assumes "\<forall>k \<in> {''assignees_add'', ''assignees_rem'', ''tags_add'', ''tags_rem''}.
             lookup_prop a k = JUndefined \<or> (\<exists>xs. lookup_prop a k = JArr xs)"
    and k: "k \<in> set update_fields"
  shows "map_of (update_task_updates a) k
           = (if lookup_prop a k = JUndefined then None else Some (lookup_prop a k))"
proof -
  have "k \<noteq> ''assignees''" "k \<noteq> ''tags''"
    using update_fields_not_special k by blast+
  then show ?thesis
    using k by (simp add: update_task_updates_arrays[OF assms(1)] Let_def map_of_set_prop
                  scalars_map_of)
qed

lemma updates_assignees:
  assumes "\<forall>k \<in> {''assignees_add'', ''assignees_rem'', ''tags_add'', ''tags_rem''}.
             lookup_prop a k = JUndefined \<or> (\<exists>xs. lookup_prop a k = JArr xs)"
  shows "map_of (update_task_updates a) ''assignees''
           = (if lookup_prop a ''assignees_add'' = JUndefined
                 \<and> lookup_prop a ''assignees_rem'' = JUndefined then None
              else Some (JObj (supplied [(''add'', lookup_prop a ''assignees_add''),
                                         (''rem'', lookup_prop a ''assignees_rem'')])))"
  using update_fields_not_special
  by (simp add: update_task_updates_arrays[OF assms] Let_def map_of_set_prop scalars_map_of)

lemma updates_tags:
  assumes "\<forall>k \<in> {''assignees_add'', ''assignees_rem'', ''tags_add'', ''tags_rem''}.
             lookup_prop a k = JUndefined \<or> (\<exists>xs. lookup_prop a k = JArr xs)"
  shows "map_of (update_task_updates a) ''tags''
           = (if lookup_prop a ''tags_add'' = JUndefined
                 \<and> lookup_prop a ''tags_rem'' = JUndefined then None
              else Some (JObj (supplied [(''add'', lookup_prop a ''tags_add''),
                                         (''rem'', lookup_prop a ''tags_rem'')])))"
  using update_fields_not_special
  by (simp add: update_task_updates_arrays[OF assms] Let_def map_of_set_prop scalars_map_of)

lemma updates_keys:
  assumes "\<forall>k \<in> {''assignees_add'', ''assignees_rem'', ''tags_add'', ''tags_rem''}.
             lookup_prop a k = JUndefined \<or> (\<exists>xs. lookup_prop a k = JArr xs)"
  shows "fst ` set (update_task_updates a) \<subseteq> set update_fields \<union> {''assignees'', ''tags''}"
  using scalars_keys[of a]
  by (auto simp: update_task_updates_arrays[OF assms] Let_def keys_set_prop)

lemma updates_distinct:
  assumes "\<forall>k \<in> {''assignees_add'', ''assignees_rem'', ''tags_add'', ''tags_rem''}.
             lookup_prop a k = JUndefined \<or> (\<exists>xs. lookup_prop a k = JArr xs)"
  shows "distinct (map fst (update_task_updates a))"
  using scalars_distinct[of a]
  by (simp add: update_task_updates_arrays[OF assms] Let_def distinct_set_prop)

lemma updates_defined:
  assumes "\<forall>k \<in> {''assignees_add'', ''assignees_rem'', ''tags_add'', ''tags_rem''}.
             lookup_prop a k = JUndefined \<or> (\<exists>xs. lookup_prop a k = JArr xs)"
  shows "JUndefined \<notin> snd ` set (update_task_updates a)"
  using scalars_defined[of a]
  by (simp add: update_task_updates_arrays[OF assms] Let_def values_set_prop_defined)

lemma update_task_request:
  "\<exists>req. snd (call_tool cl fetch ''clickup_update_task'' (Some a)) = [req]
      \<and> req_method req = ''PUT''
      \<and> req_url req = baseUrl @ ''/task/'' @ js_String (lookup_prop a ''task_id'')
      \<and> req_body req = JSON_stringify (JObj (update_task_updates a))"
  by (simp add: snd_call_tool dispatch_def tool_update_task_def with_args_def updateTask_def
      snd_bind_request_return build_request_def)

lemma update_fields_set:
  "set update_fields = {''name'', ''description'', ''markdown_description'', ''status'',
      ''priority'', ''due_date'', ''time_estimate'', ''archived''}"
  by (simp add: update_fields_def)

text \<open>
  C4: for a \<^verbatim>\<open>clickup_update_task\<close> invocation whose \<^verbatim>\<open>assignees_add\<close>,
  \<^verbatim>\<open>assignees_rem\<close>, \<^verbatim>\<open>tags_add\<close> and \<^verbatim>\<open>tags_rem\<close>, where supplied, are arrays
  (their declared type), the update object holds each of the eight scalar fields
  \<^verbatim>\<open>name\<close>, \<^verbatim>\<open>description\<close>, \<^verbatim>\<open>markdown_description\<close>, \<^verbatim>\<open>status\<close>, \<^verbatim>\<open>priority\<close>,
  \<^verbatim>\<open>due_date\<close>, \<^verbatim>\<open>time_estimate\<close> and \<^verbatim>\<open>archived\<close> exactly when the caller supplied
  it, with the caller's value; \<^verbatim>\<open>assignees\<close> exactly when one of \<^verbatim>\<open>assignees_add\<close>,
  \<^verbatim>\<open>assignees_rem\<close> was supplied, as an object with \<^verbatim>\<open>add\<close> and \<^verbatim>\<open>rem\<close> for the
  supplied sides; the same for \<^verbatim>\<open>tags\<close>; and no key other than these ten. No property
  of it is \<^verbatim>\<open>undefined\<close>, its keys are distinct, and its JSON is the body of the one
  PUT request sent.
\<close>

theorem update_task_fields_as_supplied:
  assumes "\<forall>k \<in> {''assignees_add'', ''assignees_rem'', ''tags_add'', ''tags_rem''}.
             lookup_prop a k = JUndefined \<or> (\<exists>xs. lookup_prop a k = JArr xs)"
  shows "(\<forall>k \<in> {''name'', ''description'', ''markdown_description'', ''status'',
                 ''priority'', ''due_date'', ''time_estimate'', ''archived''}.
            map_of (update_task_updates a) k
              = (if lookup_prop a k = JUndefined then None else Some (lookup_prop a k)))
       \<and> map_of (update_task_updates a) ''assignees''
           = (if lookup_prop a ''assignees_add'' = JUndefined
                 \<and> lookup_prop a ''assignees_rem'' = JUndefined then None
              else Some (JObj (supplied [(''add'', lookup_prop a ''assignees_add''),
                                         (''rem'', lookup_prop a ''assignees_rem'')])))
       \<and> map_of (update_task_updates a) ''tags''
           = (if lookup_prop a ''tags_add'' = JUndefined
                 \<and> lookup_prop a ''tags_rem'' = JUndefined then None
              else Some (JObj (supplied [(''add'', lookup_prop a ''tags_add''),
                                         (''rem'', lookup_prop a ''tags_rem'')])))
       \<and> fst ` set (update_task_updates a)
           \<subseteq> {''name'', ''description'', ''markdown_description'', ''status'', ''priority'',
               ''due_date'', ''time_estimate'', ''archived'', ''assignees'', ''tags''}
       \<and> distinct (map fst (update_task_updates a))
       \<and> JUndefined \<notin> snd ` set (update_task_updates a)
       \<and> (\<exists>req. snd (call_tool cl fetch ''clickup_update_task'' (Some a)) = [req]
             \<and> req_method req = ''PUT''
             \<and> req_url req = baseUrl @ ''/task/'' @ js_String (lookup_prop a ''task_id'')
             \<and> req_body req = JSON_stringify (JObj (update_task_updates a)))"
proof -
  have scalar: "map_of (update_task_updates a) k
      = (if lookup_prop a k = JUndefined then None else Some (lookup_prop a k))"
    if "k \<in> {''name'', ''description'', ''markdown_description'', ''status'',
              ''priority'', ''due_date'', ''time_estimate'', ''archived''}" for k
  proof -
    from that have "k \<in> set update_fields"
      by (simp only: update_fields_set)
    then show ?thesis
      by (rule updates_scalar[OF assms])
  qed
  have "fst ` set (update_task_updates a) \<subseteq> set update_fields \<union> {''assignees'', ''tags''}"
    by (rule updates_keys[OF assms])
  then have keys: "fst ` set (update_task_updates a)
           \<subseteq> {''name'', ''description'', ''markdown_description'', ''status'', ''priority'',
               ''due_date'', ''time_estimate'', ''archived'', ''assignees'', ''tags''}"
    by (simp only: update_fields_set Un_insert_left Un_empty_left)
  show ?thesis
    by (intro conjI ballI scalar keys updates_assignees[OF assms] updates_tags[OF assms]
          updates_distinct[OF assms] updates_defined[OF assms] update_task_request)
qed

text \<open>
  C4 at an invocation that supplies a name, a status, an explicit \<^verbatim>\<open>null\<close> priority,
  assignees to add and an empty list of tags to remove: the name is in the update object
  with the caller's value, the description is not, and the omitted fields are absent
  from the body.
\<close>

theorem update_task_fields_as_supplied_witness:
  "map_of (update_task_updates
      [(''task_id'', JStr ''abc''), (''name'', JStr ''Ship it''), (''status'', JStr ''done''),
       (''priority'', JNull), (''assignees_add'', JArr [JNum 7]), (''tags_rem'', JArr [])]) ''name''
     = Some (JStr ''Ship it'')
   \<and> map_of (update_task_updates
      [(''task_id'', JStr ''abc''), (''name'', JStr ''Ship it''), (''status'', JStr ''done''),
       (''priority'', JNull), (''assignees_add'', JArr [JNum 7]), (''tags_rem'', JArr [])]) ''description''
     = None
   \<and> update_task_updates
      [(''task_id'', JStr ''abc''), (''name'', JStr ''Ship it''), (''status'', JStr ''done''),
       (''priority'', JNull), (''assignees_add'', JArr [JNum 7]), (''tags_rem'', JArr [])]
     = [(''name'', JStr ''Ship it''), (''status'', JStr ''done''), (''priority'', JNull),
        (''assignees'', JObj [(''add'', JArr [JNum 7])]), (''tags'', JObj [(''rem'', JArr [])])]
   \<and> (\<exists>req. snd (call_tool sample_client empty_tasks_backend ''clickup_update_task''
          (Some [(''task_id'', JStr ''abc''), (''name'', JStr ''Ship it''), (''status'', JStr ''done''),
       (''priority'', JNull), (''assignees_add'', JArr [JNum 7]), (''tags_rem'', JArr [])])) = [req]
         \<and> req_method req = ''PUT''
         \<and> req_body req = Some (''{'' @ [CHR 0x22] @ ''name'' @ [CHR 0x22] @ '':'' @ [CHR 0x22] @ ''Ship it''
               @ [CHR 0x22] @ '','' @ [CHR 0x22] @ ''status'' @ [CHR 0x22] @ '':''
               @ [CHR 0x22] @ ''done'' @ [CHR 0x22] @ '','' @ [CHR 0x22] @ ''priority''
               @ [CHR 0x22] @ '':null,'' @ [CHR 0x22] @ ''assignees'' @ [CHR 0x22] @ '':{''
               @ [CHR 0x22] @ ''add'' @ [CHR 0x22] @ '':[7]},'' @ [CHR 0x22] @ ''tags''
               @ [CHR 0x22] @ '':{'' @ [CHR 0x22] @ ''rem'' @ [CHR 0x22] @ '':[]}}''))"
proof -
  let ?a = "[(''task_id'', JStr ''abc''), (''name'', JStr ''Ship it''), (''status'', JStr ''done''),
       (''priority'', JNull), (''assignees_add'', JArr [JNum 7]), (''tags_rem'', JArr [])]"
  have h: "\<forall>k \<in> {''assignees_add'', ''assignees_rem'', ''tags_add'', ''tags_rem''}.
             lookup_prop ?a k = JUndefined \<or> (\<exists>xs. lookup_prop ?a k = JArr xs)"
    by (simp add: lookup_prop_def)
  have v: "update_task_updates ?a
     = [(''name'', JStr ''Ship it''), (''status'', JStr ''done''), (''priority'', JNull),
        (''assignees'', JObj [(''add'', JArr [JNum 7])]), (''tags'', JObj [(''rem'', JArr [])])]"
    by code_simp
  have b: "JSON_stringify (JObj [(''name'', JStr ''Ship it''), (''status'', JStr ''done''), (''priority'', JNull),
        (''assignees'', JObj [(''add'', JArr [JNum 7])]), (''tags'', JObj [(''rem'', JArr [])])])
     = Some (''{'' @ [CHR 0x22] @ ''name'' @ [CHR 0x22] @ '':'' @ [CHR 0x22] @ ''Ship it''
               @ [CHR 0x22] @ '','' @ [CHR 0x22] @ ''status'' @ [CHR 0x22] @ '':''
               @ [CHR 0x22] @ ''done'' @ [CHR 0x22] @ '','' @ [CHR 0x22] @ ''priority''
               @ [CHR 0x22] @ '':null,'' @ [CHR 0x22] @ ''assignees'' @ [CHR 0x22] @ '':{''
               @ [CHR 0x22] @ ''add'' @ [CHR 0x22] @ '':[7]},'' @ [CHR 0x22] @ ''tags''
               @ [CHR 0x22] @ '':{'' @ [CHR 0x22] @ ''rem'' @ [CHR 0x22] @ '':[]}}'')"
    by code_simp
  have ln: "lookup_prop ?a ''name'' = JStr ''Ship it''"
    by code_simp
  have ld: "lookup_prop ?a ''description'' = JUndefined"
    by code_simp
  note t = update_task_fields_as_supplied[OF h, of sample_client empty_tasks_backend]
  have n: "map_of (update_task_updates ?a) ''name'' = Some (JStr ''Ship it'')"
    using t[THEN conjunct1, THEN bspec, of "''name''"] by (simp add: ln)
  have d: "map_of (update_task_updates ?a) ''description'' = None"
    using t[THEN conjunct1, THEN bspec, of "''description''"] by (simp add: ld)
  from t[THEN conjunct2, THEN conjunct2, THEN conjunct2, THEN conjunct2, THEN conjunct2,
         THEN conjunct2]
  obtain req where r: "snd (call_tool sample_client empty_tasks_backend ''clickup_update_task''
          (Some ?a)) = [req]"
    and m: "req_method req = ''PUT''"
    and body: "req_body req = JSON_stringify (JObj (update_task_updates ?a))"
    by (elim exE conjE)
  from body have body': "req_body req = Some (''{'' @ [CHR 0x22] @ ''name'' @ [CHR 0x22] @ '':'' @ [CHR 0x22] @ ''Ship it''
               @ [CHR 0x22] @ '','' @ [CHR 0x22] @ ''status'' @ [CHR 0x22] @ '':''
               @ [CHR 0x22] @ ''done'' @ [CHR 0x22] @ '','' @ [CHR 0x22] @ ''priority''
               @ [CHR 0x22] @ '':null,'' @ [CHR 0x22] @ ''assignees'' @ [CHR 0x22] @ '':{''
               @ [CHR 0x22] @ ''add'' @ [CHR 0x22] @ '':[7]},'' @ [CHR 0x22] @ ''tags''
               @ [CHR 0x22] @ '':{'' @ [CHR 0x22] @ ''rem'' @ [CHR 0x22] @ '':[]}}'')"
    unfolding v b .
  show ?thesis
    by (intro conjI n d v exI[of _ req] r m body')
qed

subsection \<open>The error boundary of the dispatcher\<close>

text \<open>Success results are text results.\<close>

lemma bind_io_Inr:
  assumes "fst (bind_io m f) = Inr r" and "\<And>x. fst (f x) = Inr r \<Longrightarrow> P"
  shows P
  using assms by (auto simp: fst_bind_io split: sum.splits)

lemma return_text_Inr: "fst (return_io (text_result t)) = Inr r \<Longrightarrow> \<exists>t. r = text_result t"
  by (auto simp: return_io_def)

lemma with_args_Inr:
  assumes "fst (with_args args k body) = Inr r" and "\<And>a. fst (body a) = Inr r \<Longrightarrow> P"
  shows P
  using assms by (cases args) (auto simp: with_args_def throw_io_def)

lemma dispatch_Inr_text:
  assumes "fst (dispatch cl fetch name args) = Inr r"
  shows "\<exists>t. r = text_result t"
  using assms
  unfolding dispatch_def tool_create_task_def tool_get_task_def tool_update_task_def
    tool_delete_task_def tool_list_tasks_def tool_search_tasks_def tool_add_comment_def
    tool_list_comments_def tool_add_dependency_def tool_remove_dependency_def
    tool_list_dependencies_def tool_get_workspace_structure_def
  by (auto split: if_splits simp: throw_io_def
       elim!: with_args_Inr bind_io_Inr dest!: return_text_Inr)

text \<open>When every request is rejected, every tool fails.\<close>

lemma request_fails:
  "\<forall>req. \<exists>e. settle (fetch req) = Inl e \<Longrightarrow> \<exists>e. fst (request cl fetch m p b q) = Inl e"
  by (simp add: fst_request)

lemma bind_io_fails: "\<exists>e. fst m = Inl e \<Longrightarrow> \<exists>e. fst (bind_io m f) = Inl e"
  by (auto simp: fst_bind_io)

lemma with_args_fails:
  "(\<And>a. \<exists>e. fst (body a) = Inl e) \<Longrightarrow> \<exists>e. fst (with_args args k body) = Inl e"
  by (cases args) (auto simp: with_args_def throw_io_def)

lemma throw_io_fails: "\<exists>e'. fst (throw_io e) = Inl e'"
  by (simp add: throw_io_def)

lemma search_scope_fails:
  "\<forall>req. \<exists>e. settle (fetch req) = Inl e \<Longrightarrow> \<exists>e. fst (search_scope cl fetch a ps) = Inl e"
  unfolding search_scope_def Let_def searchTasks_def
  by (auto simp: fst_request throw_io_def)

lemma tools_fail:
  assumes "\<forall>req. \<exists>e. settle (fetch req) = Inl e"
  shows "\<exists>e. fst (tool_create_task cl fetch args) = Inl e"
    and "\<exists>e. fst (tool_get_task cl fetch args) = Inl e"
    and "\<exists>e. fst (tool_update_task cl fetch args) = Inl e"
    and "\<exists>e. fst (tool_delete_task cl fetch args) = Inl e"
    and "\<exists>e. fst (tool_list_tasks cl fetch args) = Inl e"
    and "\<exists>e. fst (tool_search_tasks cl fetch args) = Inl e"
    and "\<exists>e. fst (tool_add_comment cl fetch args) = Inl e"
    and "\<exists>e. fst (tool_list_comments cl fetch args) = Inl e"
    and "\<exists>e. fst (tool_add_dependency cl fetch args) = Inl e"
    and "\<exists>e. fst (tool_remove_dependency cl fetch args) = Inl e"
    and "\<exists>e. fst (tool_list_dependencies cl fetch args) = Inl e"
    and "\<exists>e. fst (tool_get_workspace_structure cl fetch) = Inl e"
  unfolding tool_create_task_def tool_get_task_def tool_update_task_def
    tool_delete_task_def tool_list_tasks_def tool_search_tasks_def tool_add_comment_def
    tool_list_comments_def tool_add_dependency_def tool_remove_dependency_def
    tool_list_dependencies_def tool_get_workspace_structure_def
    createTask_def getTask_def updateTask_def deleteTask_def listTasks_def createComment_def
    getComments_def addDependency_def deleteDependency_def getTaskWithDependencies_def
    getWorkspaceStructure_def getAuthorizedTeams_def
  by (rule with_args_fails bind_io_fails request_fails[OF assms] search_scope_fails[OF assms])+

lemma dispatch_fails:
  assumes "\<forall>req. \<exists>e. settle (fetch req) = Inl e"
  shows "\<exists>e. fst (dispatch cl fetch name args) = Inl e"
  by (simp add: dispatch_def tools_fail[OF assms] throw_io_fails)

text \<open>
  C9: the handler always returns a response with a single text item. Whenever the
  dispatcher or an operation below it raises an error, the response is that error's
  message after \<^verbatim>\<open>Error: \<close>, with \<^verbatim>\<open>isError: true\<close>; this is the case for every name
  outside the catalog (no request is sent then) and, for every tool, when the backend
  rejects every request; \<^verbatim>\<open>isError\<close> is set for no other response.
\<close>

theorem errors_become_error_responses:
  "(\<forall>e. fst (dispatch cl fetch name args) = Inl e
        \<longrightarrow> fst (call_tool cl fetch name args)
              = \<lparr> content = [\<lparr> content_type = ''text'',
                               content_text = Some (''Error: '' @ message e) \<rparr>],
                  isError = Some True \<rparr>)
   \<and> (name \<notin> set tool_names
        \<longrightarrow> call_tool cl fetch name args
              = (\<lparr> content = [\<lparr> content_type = ''text'',
                                content_text = Some (''Error: Unknown tool: '' @ name) \<rparr>],
                   isError = Some True \<rparr>, []))
   \<and> ((\<forall>req. \<exists>e. settle (fetch req) = Inl e)
        \<longrightarrow> isError (fst (call_tool cl fetch name args)) = Some True)
   \<and> (\<exists>t. content (fst (call_tool cl fetch name args))
             = [\<lparr> content_type = ''text'', content_text = t \<rparr>])
   \<and> (isError (fst (call_tool cl fetch name args)) = Some True
        \<longleftrightarrow> (\<exists>e. fst (dispatch cl fetch name args) = Inl e))"
proof (intro conjI allI impI)
  fix e assume "fst (dispatch cl fetch name args) = Inl e"
  then show "fst (call_tool cl fetch name args)
              = \<lparr> content = [\<lparr> content_type = ''text'',
                               content_text = Some (''Error: '' @ message e) \<rparr>],
                  isError = Some True \<rparr>"
    by (simp add: call_tool_eq error_result_def)
next
  assume "name \<notin> set tool_names"
  then show "call_tool cl fetch name args
              = (\<lparr> content = [\<lparr> content_type = ''text'',
                                content_text = Some (''Error: Unknown tool: '' @ name) \<rparr>],
                   isError = Some True \<rparr>, [])"
    by (simp add: tool_names_def call_tool_def dispatch_def throw_io_def error_result_def)
next
  assume "\<forall>req. \<exists>e. settle (fetch req) = Inl e"
  from dispatch_fails[OF this, of cl name args]
  show "isError (fst (call_tool cl fetch name args)) = Some True"
    by (auto simp: call_tool_eq error_result_def)
next
  show "\<exists>t. content (fst (call_tool cl fetch name args))
             = [\<lparr> content_type = ''text'', content_text = t \<rparr>]"
  proof (cases "fst (dispatch cl fetch name args)")
    case (Inl e)
    then show ?thesis by (simp add: call_tool_eq error_result_def)
  next
    case (Inr r)
    with dispatch_Inr_text[OF Inr] show ?thesis
      by (auto simp: call_tool_eq text_result_def)
  qed
next
  show "isError (fst (call_tool cl fetch name args)) = Some True
        \<longleftrightarrow> (\<exists>e. fst (dispatch cl fetch name args) = Inl e)"
  proof (cases "fst (dispatch cl fetch name args)")
    case (Inl e)
    then show ?thesis by (simp add: call_tool_eq error_result_def)
  next
    case (Inr r)
    with dispatch_Inr_text[OF Inr] show ?thesis
      by (auto simp: call_tool_eq text_result_def)
  qed
qed

text \<open>
  C9 at an unknown tool name, at a task lookup answered with 404, and at a search with an
  invalid scope.
\<close>

theorem errors_become_error_responses_witness:
  "call_tool sample_client not_found_backend ''clickup_archive_task'' None
     = (\<lparr> content = [\<lparr> content_type = ''text'',
                       content_text = Some ''Error: Unknown tool: clickup_archive_task'' \<rparr>],
          isError = Some True \<rparr>, [])
   \<and> isError (fst (call_tool sample_client not_found_backend ''clickup_get_task''
                     (Some [(''task_id'', JStr ''abc'')]))) = Some True
   \<and> fst (call_tool sample_client empty_tasks_backend ''clickup_search_tasks''
            (Some [(''query'', JStr ''bug''), (''scope'', JStr ''everywhere'')]))
       = \<lparr> content = [\<lparr> content_type = ''text'',
                        content_text = Some ''Error: Invalid scope: everywhere'' \<rparr>],
           isError = Some True \<rparr>"
proof -
  have n: "''clickup_archive_task'' \<notin> set tool_names"
    by (simp add: tool_names_def)
  have f: "\<forall>req. \<exists>e. settle (not_found_backend req) = Inl e"
    by (simp add: not_found_backend_def settle_def response_ok_def)
  have d: "fst (dispatch sample_client empty_tasks_backend ''clickup_search_tasks''
                 (Some [(''query'', JStr ''bug''), (''scope'', JStr ''everywhere'')]))
             = Inl (Error ''Invalid scope: everywhere'')"
    by code_simp
  have m: "''Error: '' @ message (Error ''Invalid scope: everywhere'')
             = ''Error: Invalid scope: everywhere''"
    by simp
  have u: "''Error: Unknown tool: '' @ ''clickup_archive_task''
             = ''Error: Unknown tool: clickup_archive_task''"
    by simp
  note a = errors_become_error_responses[of sample_client not_found_backend "''clickup_archive_task''" None,
              THEN conjunct2, THEN conjunct1, THEN mp, OF n, unfolded u]
  note b = errors_become_error_responses[of sample_client not_found_backend "''clickup_get_task''"
                "Some [(''task_id'', JStr ''abc'')]",
              THEN conjunct2, THEN conjunct2, THEN conjunct1, THEN mp, OF f]
  note c = errors_become_error_responses[of sample_client empty_tasks_backend "''clickup_search_tasks''"
                "Some [(''query'', JStr ''bug''), (''scope'', JStr ''everywhere'')]",
              THEN conjunct1, THEN spec, THEN mp, OF d, unfolded m]
  show ?thesis
    by (rule conjI[OF a conjI[OF b c]])
qed

subsection \<open>The workspace structure\<close>

lemma bind_err_Inr [simp]: "bind_err (Inr x) f = f x"
  by (simp add: bind_err_def)

lemma bind_err_Inl [simp]: "bind_err (Inl e) f = Inl e"
  by (simp add: bind_err_def)

lemma map_err_all:
  "(\<And>x. x \<in> set xs \<Longrightarrow> f x = Inr (g x)) \<Longrightarrow> map_err f xs = Inr (map g xs)"
  by (induction xs) simp_all

lemma get_prop_object: "is_object v \<Longrightarrow> get_prop v k = Inr (prop_of v k)"
  by (cases v) (simp_all add: is_object_def prop_of_def)

lemma list_id_name_object: "is_object l \<Longrightarrow> list_id_name l = Inr (id_and_name l)"
  by (simp add: list_id_name_def id_and_name_def get_prop_object)

lemma folder_lists_or_empty:
  "folder_shaped f \<Longrightarrow> js_or (prop_of f ''lists'') (JArr []) = JArr (embedded_lists f)"
  by (auto simp: folder_shaped_def js_or_def embedded_lists_def array_of_def split: jsval.splits)

lemma folder_lists_shaped:
  "folder_shaped f \<Longrightarrow> l \<in> set (embedded_lists f) \<Longrightarrow> list_shaped l"
  by (auto simp: folder_shaped_def embedded_lists_def array_of_def list_all_iff split: jsval.splits)

lemma folder_with_lists_shaped:
  assumes "folder_shaped f"
  shows "folder_with_lists f = Inr (folder_entry f)"
proof -
  have o: "is_object f" using assms by (simp add: folder_shaped_def)
  have "map_err list_id_name (embedded_lists f) = Inr (map id_and_name (embedded_lists f))"
    using folder_lists_shaped[OF assms]
    by (intro map_err_all list_id_name_object) (simp add: list_shaped_def)
  then show ?thesis
    by (simp add: folder_with_lists_def folder_entry_def get_prop_object[OF o]
        folder_lists_or_empty[OF assms] js_map_def)
qed

lemma folder_list_ids_shaped:
  assumes "folder_shaped f"
  shows "folder_list_ids f = Inr (map (\<lambda>e. prop_of e ''id'') (embedded_lists f))"
proof -
  have o: "is_object f" using assms by (simp add: folder_shaped_def)
  have "map_err (\<lambda>list. get_prop list ''id'') (embedded_lists f)
          = Inr (map (\<lambda>e. prop_of e ''id'') (embedded_lists f))"
    using folder_lists_shaped[OF assms]
    by (intro map_err_all get_prop_object) (simp add: list_shaped_def)
  then show ?thesis
    by (simp add: folder_list_ids_def get_prop_object[OF o] folder_lists_or_empty[OF assms]
        js_map_def)
qed

lemma folders_mapped:
  assumes "list_all folder_shaped fs"
  shows "js_map folder_with_lists (JArr fs) = Inr (map folder_entry fs)"
    and "js_flatMap folder_list_ids (JArr fs)
           = Inr (concat (map (\<lambda>f. map (\<lambda>e. prop_of e ''id'') (embedded_lists f)) fs))"
proof -
  have a: "map_err folder_with_lists fs = Inr (map folder_entry fs)"
    using assms by (intro map_err_all folder_with_lists_shaped) (simp add: list_all_iff)
  have b: "map_err folder_list_ids fs
             = Inr (map (\<lambda>f. map (\<lambda>e. prop_of e ''id'') (embedded_lists f)) fs)"
    using assms by (intro map_err_all folder_list_ids_shaped) (simp add: list_all_iff)
  show "js_map folder_with_lists (JArr fs) = Inr (map folder_entry fs)"
    by (simp add: js_map_def a)
  show "js_flatMap folder_list_ids (JArr fs)
           = Inr (concat (map (\<lambda>f. map (\<lambda>e. prop_of e ''id'') (embedded_lists f)) fs))"
    by (simp add: js_flatMap_def b)
qed

lemma folder_ids_strings:
  assumes "list_all folder_shaped fs"
    and "i \<in> set (concat (map (\<lambda>f. map (\<lambda>e. prop_of e ''id'') (embedded_lists f)) fs))"
  shows "\<exists>s. i = JStr s"
proof -
  from assms(2) obtain f l where f: "f \<in> set fs" and l: "l \<in> set (embedded_lists f)"
    and i: "i = prop_of l ''id''" by auto
  have "folder_shaped f" using assms(1) f by (simp add: list_all_iff)
  then have "list_shaped l" using l by (rule folder_lists_shaped)
  then show ?thesis using i by (auto simp: list_shaped_def split: jsval.splits)
qed

lemma set_has_strings:
  assumes "\<And>i. i \<in> set ids \<Longrightarrow> \<exists>s. i = JStr s"
  shows "set_has ids v \<longleftrightarrow> v \<in> set ids"
proof -
  have "\<And>e. e \<in> set ids \<Longrightarrow> same_value_zero e v = (e = v)"
    using assms by fastforce
  then show ?thesis
    by (auto simp: set_has_def list_ex_iff)
qed

lemma filter_zip_map: "map fst (filter snd (zip xs (map p xs))) = filter p xs"
  by (induction xs) simp_all

lemma lists_filtered:
  assumes "list_all list_shaped ls"
  shows "js_filter (\<lambda>list. bind_err (get_prop list ''id'') (\<lambda>i. Inr (\<not> set_has ids i))) (JArr ls)
           = Inr (filter (\<lambda>l. \<not> set_has ids (prop_of l ''id'')) ls)"
proof -
  have "map_err (\<lambda>list. bind_err (get_prop list ''id'') (\<lambda>i. Inr (\<not> set_has ids i))) ls
          = Inr (map (\<lambda>l. \<not> set_has ids (prop_of l ''id'')) ls)"
    using assms
    by (intro map_err_all) (simp add: list_all_iff list_shaped_def get_prop_object)
  then show ?thesis
    by (simp add: js_filter_def filter_zip_map)
qed

lemma fst_getFolders:
  "fst (getFolders cl fetch spaceId JUndefined) =
     (case fetched cl fetch (''/space/'' @ js_String spaceId @ ''/folder'')
             (Some [(''archived'', JBool False)]) of
        Inl e \<Rightarrow> Inr (JObj [(''folders'', JArr [])])
      | Inr r \<Rightarrow> Inr r)"
  by (simp add: getFolders_def request_def fetched_def Let_def split: sum.splits)

lemma fst_getLists:
  "fst (getLists cl fetch spaceId) = fetched cl fetch (''/space/'' @ js_String spaceId @ ''/list'') None"
  by (simp add: getLists_def fst_request fetched_def)

lemma fst_getSpaces:
  "fst (getSpaces cl fetch teamId) = fetched cl fetch (''/team/'' @ js_String teamId @ ''/space'') None"
  by (simp add: getSpaces_def fst_request fetched_def)

lemma fst_getAuthorizedTeams:
  "fst (getAuthorizedTeams cl fetch) = fetched cl fetch ''/team'' None"
  by (simp add: getAuthorizedTeams_def fst_request fetched_def)

lemma fst_lift_io: "fst (lift_io r) = r"
  by (simp add: lift_io_def)

lemma fst_return_io: "fst (return_io x) = Inr x"
  by (simp add: return_io_def)

lemma fst_bind_io_Inr: "fst m = Inr x \<Longrightarrow> fst (bind_io m f) = fst (f x)"
  by (simp add: fst_bind_io)

lemma fst_bind_io_Inl: "fst m = Inl e \<Longrightarrow> fst (bind_io m f) = Inl e"
  by (simp add: fst_bind_io)

lemma get_prop_Inr_array:
  "prop_of r k = JArr xs \<Longrightarrow> get_prop r k = Inr (JArr xs)"
  by (cases r) (simp_all add: prop_of_def)

lemma folders_response_cases:
  assumes "space_well_formed cl fetch space"
  obtains (failed) e where
      "fetched cl fetch (''/space/'' @ js_String (prop_of space ''id'') @ ''/folder'')
         (Some [(''archived'', JBool False)]) = Inl e"
      "folders_response cl fetch space = []"
  | (ok) r where
      "fetched cl fetch (''/space/'' @ js_String (prop_of space ''id'') @ ''/folder'')
         (Some [(''archived'', JBool False)]) = Inr r"
      "prop_of r ''folders'' = JArr (folders_response cl fetch space)"
      "list_all folder_shaped (folders_response cl fetch space)"
proof (cases "fetched cl fetch (''/space/'' @ js_String (prop_of space ''id'') @ ''/folder'')
         (Some [(''archived'', JBool False)])")
  case (Inl e)
  then show ?thesis
    by (intro failed[of e]) (simp_all add: folders_response_def response_of_def prop_of_def array_of_def)
next
  case (Inr r)
  with assms obtain fs where "prop_of r ''folders'' = JArr fs" "list_all folder_shaped fs"
    by (auto simp: space_well_formed_def split: jsval.splits)
  with Inr show ?thesis
    by (intro ok[of r]) (simp_all add: folders_response_def response_of_def array_of_def)
qed

lemma lists_response_ok:
  assumes "space_well_formed cl fetch space"
  obtains r where
      "fetched cl fetch (''/space/'' @ js_String (prop_of space ''id'') @ ''/list'') None = Inr r"
      "prop_of r ''lists'' = JArr (lists_response cl fetch space)"
      "list_all list_shaped (lists_response cl fetch space)"
proof -
  from assms obtain r ls where
    "fetched cl fetch (''/space/'' @ js_String (prop_of space ''id'') @ ''/list'') None = Inr r"
    "prop_of r ''lists'' = JArr ls" "list_all list_shaped ls"
    by (auto simp: space_well_formed_def split: sum.splits jsval.splits)
  then show ?thesis
    by (intro that[of r]) (simp_all add: lists_response_def response_of_def array_of_def)
qed

lemma space_tail:
  assumes fs: "list_all folder_shaped fs"
    and lr: "fetched cl fetch (''/space/'' @ js_String spaceId @ ''/list'') None = Inr r"
    and ls: "prop_of r ''lists'' = JArr ls" "list_all list_shaped ls"
  shows "fst (bind_io (lift_io (js_map folder_with_lists (JArr fs))) (\<lambda>foldersWithLists.
     bind_io (getLists cl fetch spaceId) (\<lambda>lr.
     bind_io (lift_io (get_prop lr ''lists'')) (\<lambda>allSpaceLists.
     bind_io (lift_io (js_flatMap folder_list_ids (JArr fs))) (\<lambda>listsInFolders.
     bind_io (lift_io (js_filter
                (\<lambda>list. bind_err (get_prop list ''id'')
                           (\<lambda>i. Inr (\<not> set_has listsInFolders i)))
                allSpaceLists)) (\<lambda>folderlessLists.
     return_io (JObj (set_prop (set_prop sp
                        ''folders'' (JArr foldersWithLists))
                        ''lists'' (JArr folderlessLists)))))))))
     = Inr (JObj (set_prop (set_prop sp ''folders'' (JArr (map folder_entry fs)))
                    ''lists'' (JArr (folderless_lists ls fs))))"
proof -
  let ?ids = "concat (map (\<lambda>f. map (\<lambda>e. prop_of e ''id'') (embedded_lists f)) fs)"
  have h: "\<And>v. set_has ?ids v \<longleftrightarrow> v \<in> set ?ids"
    by (rule set_has_strings) (rule folder_ids_strings[OF fs])
  have f: "js_filter (\<lambda>list. bind_err (get_prop list ''id'') (\<lambda>i. Inr (\<not> set_has ?ids i))) (JArr ls)
             = Inr (folderless_lists ls fs)"
    unfolding folderless_lists_def h[symmetric] by (rule lists_filtered[OF ls(2)])
  have a: "fst (lift_io (js_map folder_with_lists (JArr fs))) = Inr (map folder_entry fs)"
    by (simp only: fst_lift_io folders_mapped(1)[OF fs])
  have b: "fst (getLists cl fetch spaceId) = Inr r"
    by (simp only: fst_getLists lr)
  have c: "fst (lift_io (get_prop r ''lists'')) = Inr (JArr ls)"
    by (simp only: fst_lift_io get_prop_Inr_array[OF ls(1)])
  have d: "fst (lift_io (js_flatMap folder_list_ids (JArr fs))) = Inr ?ids"
    by (simp only: fst_lift_io folders_mapped(2)[OF fs])
  have e: "fst (lift_io (js_filter
                (\<lambda>list. bind_err (get_prop list ''id'') (\<lambda>i. Inr (\<not> set_has ?ids i)))
                (JArr ls))) = Inr (folderless_lists ls fs)"
    by (simp only: fst_lift_io f)
  show ?thesis
    by (simp only: fst_bind_io_Inr[OF a] fst_bind_io_Inr[OF b] fst_bind_io_Inr[OF c]
          fst_bind_io_Inr[OF d] fst_bind_io_Inr[OF e] fst_return_io)
qed

lemma space_callback:
  assumes "space_well_formed cl fetch space"
  shows "fst (space_with_folders_and_lists cl fetch space) = Inr (space_entry cl fetch space)"
proof -
  have o: "is_object space" using assms by (simp add: space_well_formed_def)
  have i: "fst (lift_io (get_prop space ''id'')) = Inr (prop_of space ''id'')"
    by (simp only: fst_lift_io get_prop_object[OF o])
  from lists_response_ok[OF assms] obtain r where
    lr: "fetched cl fetch (''/space/'' @ js_String (prop_of space ''id'') @ ''/list'') None = Inr r"
    and ls: "prop_of r ''lists'' = JArr (lists_response cl fetch space)"
      "list_all list_shaped (lists_response cl fetch space)"
    by blast
  from assms show ?thesis
  proof (cases rule: folders_response_cases)
    case (failed e)
    have fs: "list_all folder_shaped []" by simp
    have g: "fst (getFolders cl fetch (prop_of space ''id'') JUndefined)
               = Inr (JObj [(''folders'', JArr [])])"
      by (simp only: fst_getFolders failed(1) sum.case)
    have p: "fst (lift_io (get_prop (JObj [(''folders'', JArr [])]) ''folders'')) = Inr (JArr [])"
      by (simp add: fst_lift_io lookup_prop_def)
    show ?thesis
      unfolding space_with_folders_and_lists_def space_entry_def
      by (simp only: fst_bind_io_Inr[OF i] fst_bind_io_Inr[OF g] fst_bind_io_Inr[OF p]
            space_tail[OF fs lr ls] failed(2) list.map)
  next
    case (ok fr)
    have g: "fst (getFolders cl fetch (prop_of space ''id'') JUndefined) = Inr fr"
      by (simp only: fst_getFolders ok(1) sum.case)
    have p: "fst (lift_io (get_prop fr ''folders'')) = Inr (JArr (folders_response cl fetch space))"
      by (simp only: fst_lift_io get_prop_Inr_array[OF ok(2)])
    show ?thesis
      unfolding space_with_folders_and_lists_def space_entry_def
      by (simp only: fst_bind_io_Inr[OF i] fst_bind_io_Inr[OF g] fst_bind_io_Inr[OF p]
            space_tail[OF ok(3) lr ls])
  qed
qed

lemma promise_all_all:
  "(\<And>x. x \<in> set xs \<Longrightarrow> fst (f x) = Inr (g x)) \<Longrightarrow> fst (promise_all (map f xs)) = Inr (map g xs)"
proof (induction xs)
  case Nil
  then show ?case by simp
next
  case (Cons a xs)
  have "fst (f a) = Inr (g a)" using Cons.prems by simp
  then obtain t where a: "f a = (Inr (g a), t)" by (cases "f a") simp
  have "fst (promise_all (map f xs)) = Inr (map g xs)" using Cons by simp
  then obtain ts where r: "promise_all (map f xs) = (Inr (map g xs), ts)"
    by (cases "promise_all (map f xs)") simp
  show ?case by (simp add: a r)
qed

lemma team_callback:
  assumes "team_well_formed cl fetch team"
  shows "fst (team_with_spaces cl fetch team) = Inr (team_entry cl fetch team)"
proof -
  have o: "is_object team" using assms by (simp add: team_well_formed_def)
  from assms obtain r ss where
    sr: "fetched cl fetch (''/team/'' @ js_String (prop_of team ''id'') @ ''/space'') None = Inr r"
    and ss: "prop_of r ''spaces'' = JArr ss" "list_all (space_well_formed cl fetch) ss"
    by (auto simp: team_well_formed_def split: sum.splits jsval.splits)
  have s: "spaces_response cl fetch team = ss"
    using sr ss by (simp add: spaces_response_def response_of_def array_of_def)
  have i: "fst (lift_io (get_prop team ''id'')) = Inr (prop_of team ''id'')"
    by (simp only: fst_lift_io get_prop_object[OF o])
  have g: "fst (getSpaces cl fetch (prop_of team ''id'')) = Inr r"
    by (simp only: fst_getSpaces sr)
  have p: "fst (lift_io (get_prop r ''spaces'')) = Inr (JArr ss)"
    by (simp only: fst_lift_io get_prop_Inr_array[OF ss(1)])
  have m: "fst (lift_io (array_method ''map'' (JArr ss))) = Inr ss"
    by (simp only: fst_lift_io array_method.simps)
  have a: "fst (promise_all (map (space_with_folders_and_lists cl fetch) ss))
             = Inr (map (space_entry cl fetch) ss)"
    using ss(2) by (intro promise_all_all space_callback) (simp add: list_all_iff)
  show ?thesis
    unfolding team_with_spaces_def team_entry_def s
    by (simp only: fst_bind_io_Inr[OF i] fst_bind_io_Inr[OF g] fst_bind_io_Inr[OF p]
          fst_bind_io_Inr[OF m] fst_bind_io_Inr[OF a] fst_return_io)
qed

lemma workspace_structure:
  assumes "responses_well_formed cl fetch"
  shows "fst (getWorkspaceStructure cl fetch) = Inr (workspace_tree cl fetch)"
proof -
  from assms obtain r ts where
    tr: "fetched cl fetch ''/team'' None = Inr r"
    and ts: "prop_of r ''teams'' = JArr ts" "list_all (team_well_formed cl fetch) ts"
    by (auto simp: responses_well_formed_def split: sum.splits jsval.splits)
  have t: "teams_response cl fetch = ts"
    using tr ts by (simp add: teams_response_def response_of_def array_of_def)
  have g: "fst (getAuthorizedTeams cl fetch) = Inr r"
    by (simp only: fst_getAuthorizedTeams tr)
  have p: "fst (lift_io (get_prop r ''teams'')) = Inr (JArr ts)"
    by (simp only: fst_lift_io get_prop_Inr_array[OF ts(1)])
  have m: "fst (lift_io (array_method ''map'' (JArr ts))) = Inr ts"
    by (simp only: fst_lift_io array_method.simps)
  have a: "fst (promise_all (map (team_with_spaces cl fetch) ts)) = Inr (map (team_entry cl fetch) ts)"
    using ts(2) by (intro promise_all_all team_callback) (simp add: list_all_iff)
  show ?thesis
    unfolding getWorkspaceStructure_def workspace_tree_def t
    by (simp only: fst_bind_io_Inr[OF g] fst_bind_io_Inr[OF p] fst_bind_io_Inr[OF m]
          fst_bind_io_Inr[OF a] fst_return_io)
qed

lemma team_entry_id: "is_object t \<Longrightarrow> prop_of (team_entry cl fetch t) ''id'' = prop_of t ''id''"
  by (cases t) (simp_all add: is_object_def team_entry_def prop_of_def lookup_set_prop)

lemma space_entry_id: "is_object s \<Longrightarrow> prop_of (space_entry cl fetch s) ''id'' = prop_of s ''id''"
  by (cases s) (simp_all add: is_object_def space_entry_def prop_of_def lookup_set_prop)

lemma team_entry_spaces:
  "array_of (prop_of (team_entry cl fetch t) ''spaces'')
     = map (space_entry cl fetch) (spaces_response cl fetch t)"
  by (simp add: team_entry_def prop_of_def lookup_set_prop array_of_def)

lemma well_formed_teams:
  assumes "responses_well_formed cl fetch"
  shows "list_all (team_well_formed cl fetch) (teams_response cl fetch)"
  using assms
  by (auto simp: responses_well_formed_def teams_response_def response_of_def array_of_def
      split: sum.splits jsval.splits)

lemma well_formed_spaces:
  assumes "team_well_formed cl fetch t"
  shows "list_all (space_well_formed cl fetch) (spaces_response cl fetch t)"
  using assms
  by (auto simp: team_well_formed_def spaces_response_def response_of_def array_of_def
      split: sum.splits jsval.splits)

lemma tree_team_order:
  assumes "responses_well_formed cl fetch"
  shows "map (\<lambda>t. prop_of t ''id'') (array_of (prop_of (workspace_tree cl fetch) ''teams''))
           = map (\<lambda>t. prop_of t ''id'') (teams_response cl fetch)"
proof -
  have "\<And>t. t \<in> set (teams_response cl fetch) \<Longrightarrow> is_object t"
    using well_formed_teams[OF assms] by (simp add: list_all_iff team_well_formed_def)
  moreover have "array_of (prop_of (workspace_tree cl fetch) ''teams'')
                   = map (team_entry cl fetch) (teams_response cl fetch)"
    by (simp add: workspace_tree_def prop_of_def lookup_prop_def array_of_def)
  ultimately show ?thesis
    by (simp add: team_entry_id)
qed

lemma tree_space_order:
  assumes "team_well_formed cl fetch t"
  shows "map (\<lambda>s. prop_of s ''id'') (array_of (prop_of (team_entry cl fetch t) ''spaces''))
           = map (\<lambda>s. prop_of s ''id'') (spaces_response cl fetch t)"
proof -
  have "\<And>s. s \<in> set (spaces_response cl fetch t) \<Longrightarrow> is_object s"
    using well_formed_spaces[OF assms] by (simp add: list_all_iff space_well_formed_def)
  then show ?thesis
    by (simp add: team_entry_spaces space_entry_id)
qed

text \<open>
  C2: when the backend's responses have the declared shapes, \<^verbatim>\<open>getWorkspaceStructure\<close>
  returns the tree described from the responses alone: under \<^verbatim>\<open>teams\<close> one entry per
  team of the teams response, in its order, holding the team's properties and under
  \<^verbatim>\<open>spaces\<close> one entry per space of that team's spaces response, in its order; a space
  entry holds the space's properties, under \<^verbatim>\<open>folders\<close> each folder of the folders
  response as its id, name and embedded lists reduced to id and name, and under
  \<^verbatim>\<open>lists\<close> the lists of the space's list response whose id is the id of no list
  embedded in a folder. The result is a function of the responses: \<^verbatim>\<open>Promise.all\<close>
  delivers the results in the order of its input array, so the order in which the
  fetches complete does not enter.
\<close>

theorem workspace_structure_tree:
  assumes "responses_well_formed cl fetch"
  shows "fst (getWorkspaceStructure cl fetch) = Inr (workspace_tree cl fetch)
       \<and> map (\<lambda>t. prop_of t ''id'') (array_of (prop_of (workspace_tree cl fetch) ''teams''))
           = map (\<lambda>t. prop_of t ''id'') (teams_response cl fetch)
       \<and> (\<forall>t \<in> set (teams_response cl fetch).
            map (\<lambda>s. prop_of s ''id'') (array_of (prop_of (team_entry cl fetch t) ''spaces''))
              = map (\<lambda>s. prop_of s ''id'') (spaces_response cl fetch t))"
proof (intro conjI ballI)
  show "fst (getWorkspaceStructure cl fetch) = Inr (workspace_tree cl fetch)"
    by (rule workspace_structure[OF assms])
  show "map (\<lambda>t. prop_of t ''id'') (array_of (prop_of (workspace_tree cl fetch) ''teams''))
           = map (\<lambda>t. prop_of t ''id'') (teams_response cl fetch)"
    by (rule tree_team_order[OF assms])
next
  fix t assume "t \<in> set (teams_response cl fetch)"
  then have "team_well_formed cl fetch t"
    using well_formed_teams[OF assms] by (simp add: list_all_iff)
  then show "map (\<lambda>s. prop_of s ''id'') (array_of (prop_of (team_entry cl fetch t) ''spaces''))
              = map (\<lambda>s. prop_of s ''id'') (spaces_response cl fetch t)"
    by (rule tree_space_order)
qed

text \<open>
  C2 at the example: for both teams, L1 is placed under the folder F and L2 directly
  under the lists of the space S.
\<close>

theorem workspace_structure_tree_witness:
  "fst (getWorkspaceStructure sample_client example_backend)
     = Inr (JObj [(''teams'', JArr
         [JObj [(''id'', JStr ''T1''), (''name'', JStr ''Team 1''),
                (''spaces'', JArr
                  [JObj [(''id'', JStr ''S''), (''name'', JStr ''Space''),
                         (''folders'', JArr
                            [JObj [(''id'', JStr ''F''), (''name'', JStr ''Folder''),
                                   (''lists'', JArr [JObj [(''id'', JStr ''L1''),
                                                           (''name'', JStr ''List 1'')]])]]),
                         (''lists'', JArr [JObj [(''id'', JStr ''L2''),
                                                 (''name'', JStr ''List 2'')]])]])],
          JObj [(''id'', JStr ''T2''), (''name'', JStr ''Team 2''),
                (''spaces'', JArr
                  [JObj [(''id'', JStr ''S''), (''name'', JStr ''Space''),
                         (''folders'', JArr
                            [JObj [(''id'', JStr ''F''), (''name'', JStr ''Folder''),
                                   (''lists'', JArr [JObj [(''id'', JStr ''L1''),
                                                           (''name'', JStr ''List 1'')]])]]),
                         (''lists'', JArr [JObj [(''id'', JStr ''L2''),
                                                 (''name'', JStr ''List 2'')]])]])]])])"
proof -
  have w: "responses_well_formed sample_client example_backend"
    by code_simp
  have t: "workspace_tree sample_client example_backend
     = JObj [(''teams'', JArr
         [JObj [(''id'', JStr ''T1''), (''name'', JStr ''Team 1''),
                (''spaces'', JArr
                  [JObj [(''id'', JStr ''S''), (''name'', JStr ''Space''),
                         (''folders'', JArr
                            [JObj [(''id'', JStr ''F''), (''name'', JStr ''Folder''),
                                   (''lists'', JArr [JObj [(''id'', JStr ''L1''),
                                                           (''name'', JStr ''List 1'')]])]]),
                         (''lists'', JArr [JObj [(''id'', JStr ''L2''),
                                                 (''name'', JStr ''List 2'')]])]])],
          JObj [(''id'', JStr ''T2''), (''name'', JStr ''Team 2''),
                (''spaces'', JArr
                  [JObj [(''id'', JStr ''S''), (''name'', JStr ''Space''),
                         (''folders'', JArr
                            [JObj [(''id'', JStr ''F''), (''name'', JStr ''Folder''),
                                   (''lists'', JArr [JObj [(''id'', JStr ''L1''),
                                                           (''name'', JStr ''List 1'')]])]]),
                         (''lists'', JArr [JObj [(''id'', JStr ''L2''),
                                                 (''name'', JStr ''List 2'')]])]])]])]"
    by code_simp
  from workspace_structure_tree[OF w, THEN conjunct1] show ?thesis
    unfolding t .
qed

subsection \<open>Folder and list fetch failures\<close>

lemma getFolders_absorbs:
  assumes "fetched cl fetch (''/space/'' @ js_String spaceId @ ''/folder'')
             (Some [(''archived'', if archived = JUndefined then JBool False else archived)]) = Inl e"
  shows "fst (getFolders cl fetch spaceId archived) = Inr (JObj [(''folders'', JArr [])])"
  using assms
  by (simp add: getFolders_def request_def fetched_def Let_def split: sum.splits)

lemma getLists_propagates:
  assumes "fetched cl fetch (''/space/'' @ js_String spaceId @ ''/list'') None = Inl e"
  shows "fst (getLists cl fetch spaceId) = Inl e"
  by (simp only: fst_getLists assms)

lemma space_callback_list_failure:
  assumes o: "is_object space"
    and f: "fetched cl fetch (''/space/'' @ js_String (prop_of space ''id'') @ ''/folder'')
             (Some [(''archived'', JBool False)]) = Inl e"
    and l: "fetched cl fetch (''/space/'' @ js_String (prop_of space ''id'') @ ''/list'') None = Inl e'"
  shows "fst (space_with_folders_and_lists cl fetch space) = Inl e'"
proof -
  have i: "fst (lift_io (get_prop space ''id'')) = Inr (prop_of space ''id'')"
    by (simp only: fst_lift_io get_prop_object[OF o])
  have g: "fst (getFolders cl fetch (prop_of space ''id'') JUndefined)
             = Inr (JObj [(''folders'', JArr [])])"
    by (simp only: fst_getFolders f sum.case)
  have p: "fst (lift_io (get_prop (JObj [(''folders'', JArr [])]) ''folders'')) = Inr (JArr [])"
    by (simp add: fst_lift_io lookup_prop_def)
  have m: "fst (lift_io (js_map folder_with_lists (JArr []))) = Inr []"
    by (simp add: fst_lift_io js_map_def)
  have b: "fst (getLists cl fetch (prop_of space ''id'')) = Inl e'"
    by (rule getLists_propagates[OF l])
  show ?thesis
    unfolding space_with_folders_and_lists_def
    by (simp only: fst_bind_io_Inr[OF i] fst_bind_io_Inr[OF g] fst_bind_io_Inr[OF p]
          fst_bind_io_Inr[OF m] fst_bind_io_Inl[OF b])
qed

lemma folderless_no_folders: "folderless_lists ls [] = ls"
  by (simp add: folderless_lists_def)

lemma space_callback_folder_failure:
  assumes w: "space_well_formed cl fetch space"
    and f: "fetched cl fetch (''/space/'' @ js_String (prop_of space ''id'') @ ''/folder'')
             (Some [(''archived'', JBool False)]) = Inl e"
  shows "fst (space_with_folders_and_lists cl fetch space)
           = Inr (JObj (set_prop (set_prop (spread space) ''folders'' (JArr []))
                          ''lists'' (JArr (lists_response cl fetch space))))"
proof -
  have "folders_response cl fetch space = []"
    using f by (simp add: folders_response_def response_of_def prop_of_def array_of_def)
  then show ?thesis
    by (simp add: space_callback[OF w] space_entry_def folderless_no_folders)
qed

text \<open>
  C8: whatever error the folder request of a space is rejected with, \<^verbatim>\<open>getFolders\<close>
  returns \<^verbatim>\<open>{ folders: [] }\<close>; whatever error the list request is rejected with,
  \<^verbatim>\<open>getLists\<close> rejects with that error. Inside the workspace structure: when both fail
  for a space, the space's entry fails with the error of the list request; when only the
  folder request fails, the entry has no folders and all lists of the space.
\<close>

theorem folder_failure_absorbed_list_failure_propagates:
  "(fetched cl fetch (''/space/'' @ js_String spaceId @ ''/folder'')
       (Some [(''archived'', if archived = JUndefined then JBool False else archived)]) = Inl e
      \<longrightarrow> fst (getFolders cl fetch spaceId archived) = Inr (JObj [(''folders'', JArr [])]))
   \<and> (fetched cl fetch (''/space/'' @ js_String spaceId @ ''/list'') None = Inl e'
      \<longrightarrow> fst (getLists cl fetch spaceId) = Inl e')
   \<and> (is_object space
       \<and> fetched cl fetch (''/space/'' @ js_String (prop_of space ''id'') @ ''/folder'')
            (Some [(''archived'', JBool False)]) = Inl e
       \<and> fetched cl fetch (''/space/'' @ js_String (prop_of space ''id'') @ ''/list'') None = Inl e'
      \<longrightarrow> fst (space_with_folders_and_lists cl fetch space) = Inl e')
   \<and> (space_well_formed cl fetch space
       \<and> fetched cl fetch (''/space/'' @ js_String (prop_of space ''id'') @ ''/folder'')
            (Some [(''archived'', JBool False)]) = Inl e
      \<longrightarrow> fst (space_with_folders_and_lists cl fetch space)
           = Inr (JObj (set_prop (set_prop (spread space) ''folders'' (JArr []))
                          ''lists'' (JArr (lists_response cl fetch space)))))"
  using getFolders_absorbs[of cl fetch spaceId archived e]
    getLists_propagates[of cl fetch spaceId e']
    space_callback_list_failure[of space cl fetch e e']
    space_callback_folder_failure[of cl fetch space e]
  by blast

text \<open>
  C8 at a backend that answers everything with 404, and at one that has no folders for
  the space S but lists it.
\<close>

theorem folder_failure_absorbed_list_failure_propagates_witness:
  "fst (getFolders sample_client not_found_backend (JStr ''S'') JUndefined)
     = Inr (JObj [(''folders'', JArr [])])
   \<and> fst (getLists sample_client not_found_backend (JStr ''S''))
     = Inl (Error (''ClickUp API error: 404 Not Found'' @ [CHR 0x0A]
                   @ ''{'' @ [CHR 0x0A] @ ''  '' @ [CHR 0x22] @ ''err'' @ [CHR 0x22] @ '': ''
                   @ [CHR 0x22] @ ''Task not found'' @ [CHR 0x22] @ [CHR 0x0A] @ ''}''))
   \<and> fst (space_with_folders_and_lists sample_client not_found_backend
            (JObj [(''id'', JStr ''S''), (''name'', JStr ''Space'')]))
     = Inl (Error (''ClickUp API error: 404 Not Found'' @ [CHR 0x0A]
                   @ ''{'' @ [CHR 0x0A] @ ''  '' @ [CHR 0x22] @ ''err'' @ [CHR 0x22] @ '': ''
                   @ [CHR 0x22] @ ''Task not found'' @ [CHR 0x22] @ [CHR 0x0A] @ ''}''))
   \<and> fst (space_with_folders_and_lists sample_client no_folders_backend
            (JObj [(''id'', JStr ''S''), (''name'', JStr ''Space'')]))
     = Inr (JObj [(''id'', JStr ''S''), (''name'', JStr ''Space''), (''folders'', JArr []),
                  (''lists'', JArr [JObj [(''id'', JStr ''L2''), (''name'', JStr ''List 2'')]])])"
proof -
  let ?space = "JObj [(''id'', JStr ''S''), (''name'', JStr ''Space'')]"
  let ?e = "Error (''ClickUp API error: 404 Not Found'' @ [CHR 0x0A]
                   @ ''{'' @ [CHR 0x0A] @ ''  '' @ [CHR 0x22] @ ''err'' @ [CHR 0x22] @ '': ''
                   @ [CHR 0x22] @ ''Task not found'' @ [CHR 0x22] @ [CHR 0x0A] @ ''}'')"
  let ?n = "Error (''ClickUp API error: 404 Not Found'' @ [CHR 0x0A]
                   @ ''{'' @ [CHR 0x0A] @ ''  '' @ [CHR 0x22] @ ''err'' @ [CHR 0x22] @ '': ''
                   @ [CHR 0x22] @ ''Not found'' @ [CHR 0x22] @ [CHR 0x0A] @ ''}'')"
  have f1: "fetched sample_client not_found_backend (''/space/'' @ js_String (JStr ''S'') @ ''/folder'')
       (Some [(''archived'', if JUndefined = JUndefined then JBool False else JUndefined)]) = Inl ?e"
    by code_simp
  have l1: "fetched sample_client not_found_backend (''/space/'' @ js_String (JStr ''S'') @ ''/list'')
       None = Inl ?e"
    by code_simp
  have h3: "is_object ?space
       \<and> fetched sample_client not_found_backend
            (''/space/'' @ js_String (prop_of ?space ''id'') @ ''/folder'')
            (Some [(''archived'', JBool False)]) = Inl ?e
       \<and> fetched sample_client not_found_backend
            (''/space/'' @ js_String (prop_of ?space ''id'') @ ''/list'') None = Inl ?e"
    by code_simp
  have h4: "space_well_formed sample_client no_folders_backend ?space
       \<and> fetched sample_client no_folders_backend
            (''/space/'' @ js_String (prop_of ?space ''id'') @ ''/folder'')
            (Some [(''archived'', JBool False)]) = Inl ?n"
    by code_simp
  have v: "JObj (set_prop (set_prop (spread ?space) ''folders'' (JArr []))
                          ''lists'' (JArr (lists_response sample_client no_folders_backend ?space)))
     = JObj [(''id'', JStr ''S''), (''name'', JStr ''Space''), (''folders'', JArr []),
                  (''lists'', JArr [JObj [(''id'', JStr ''L2''), (''name'', JStr ''List 2'')]])]"
    by code_simp
  note a = folder_failure_absorbed_list_failure_propagates[of sample_client not_found_backend "JStr ''S''" JUndefined ?e,
              THEN conjunct1, THEN mp, OF f1]
  note b = folder_failure_absorbed_list_failure_propagates[of sample_client not_found_backend "JStr ''S''" _ _ ?e,
              THEN conjunct2, THEN conjunct1, THEN mp, OF l1]
  note c = folder_failure_absorbed_list_failure_propagates[of sample_client not_found_backend _ _ ?e ?e ?space,
              THEN conjunct2, THEN conjunct2, THEN conjunct1, THEN mp, OF h3]
  note d = folder_failure_absorbed_list_failure_propagates[of sample_client no_folders_backend _ _ ?n _ ?space,
              THEN conjunct2, THEN conjunct2, THEN conjunct2, THEN mp, OF h4, unfolded v]
  show ?thesis
    by (rule conjI[OF a conjI[OF b conjI[OF c d]]])
qed

end
